theory Spec2Isabelle
  imports Complex_Main
begin

section \<open>BigNumber values (bignumber.js)\<close>

text \<open>
  Every quantity of the SDK is a \<^verbatim>\<open>BigNumber\<close> of the library bignumber.js: an
  arbitrary-precision decimal, or one of the special values NaN, Infinity and -Infinity.
  A finite value is modelled by the rational number it denotes (every decimal is a
  rational; theorems quantified over all rationals cover all decimals). The sign the
  library keeps on a zero is not modelled: \<open>Finite 0\<close> is the library's \<^verbatim>\<open>+0\<close>, the
  value of \<^verbatim>\<open>new BigNumber(0)\<close>, whose \<^verbatim>\<open>isPositive()\<close> is true.

  \<^verbatim>\<open>plus\<close>, \<^verbatim>\<open>minus\<close> and \<^verbatim>\<open>times\<close> are exact in the library. \<^verbatim>\<open>dividedBy\<close>
  rounds its quotient to \<^verbatim>\<open>DECIMAL_PLACES\<close> decimal places in \<^verbatim>\<open>ROUNDING_MODE\<close>; the
  sources never reconfigure the library, so these are its defaults, 20 places and
  \<^verbatim>\<open>ROUND_HALF_UP\<close> (to the nearest neighbour, ties away from zero).
  A comparison with NaN is false, whichever way it is asked.
\<close>

datatype BigNumber = NaN | Infinity | NegInfinity | Finite rat

definition DECIMAL_PLACES :: nat where
  "DECIMAL_PLACES = 20"

definition round_half_up :: "nat \<Rightarrow> rat \<Rightarrow> rat" where
  "round_half_up dp x =
     (if 0 \<le> x then of_int \<lfloor>x * 10 ^ dp + 1 / 2\<rfloor> / 10 ^ dp
      else - (of_int \<lfloor>- x * 10 ^ dp + 1 / 2\<rfloor> / 10 ^ dp))"

fun isNaN :: "BigNumber \<Rightarrow> bool" where
  "isNaN NaN = True"
| "isNaN _ = False"

fun isPositive :: "BigNumber \<Rightarrow> bool" where
  "isPositive NaN = False"
| "isPositive Infinity = True"
| "isPositive NegInfinity = False"
| "isPositive (Finite r) = (0 \<le> r)"

fun isLessThan :: "BigNumber \<Rightarrow> BigNumber \<Rightarrow> bool" where
  "isLessThan NaN _ = False"
| "isLessThan _ NaN = False"
| "isLessThan _ NegInfinity = False"
| "isLessThan NegInfinity _ = True"
| "isLessThan Infinity _ = False"
| "isLessThan (Finite a) Infinity = True"
| "isLessThan (Finite a) (Finite b) = (a < b)"

fun isEqualTo :: "BigNumber \<Rightarrow> BigNumber \<Rightarrow> bool" where
  "isEqualTo NaN _ = False"
| "isEqualTo _ NaN = False"
| "isEqualTo x y = (x = y)"

definition isGreaterThan :: "BigNumber \<Rightarrow> BigNumber \<Rightarrow> bool" where
  "isGreaterThan x y = isLessThan y x"

definition lte :: "BigNumber \<Rightarrow> BigNumber \<Rightarrow> bool" where
  "lte x y = (isLessThan x y \<or> isEqualTo x y)"

definition gte :: "BigNumber \<Rightarrow> BigNumber \<Rightarrow> bool" where
  "gte x y = (isGreaterThan x y \<or> isEqualTo x y)"

fun negated :: "BigNumber \<Rightarrow> BigNumber" where
  "negated NaN = NaN"
| "negated Infinity = NegInfinity"
| "negated NegInfinity = Infinity"
| "negated (Finite a) = Finite (- a)"

fun absoluteValue :: "BigNumber \<Rightarrow> BigNumber" where
  "absoluteValue NaN = NaN"
| "absoluteValue Infinity = Infinity"
| "absoluteValue NegInfinity = Infinity"
| "absoluteValue (Finite a) = Finite \<bar>a\<bar>"

fun plus :: "BigNumber \<Rightarrow> BigNumber \<Rightarrow> BigNumber" where
  "plus NaN _ = NaN"
| "plus _ NaN = NaN"
| "plus Infinity NegInfinity = NaN"
| "plus NegInfinity Infinity = NaN"
| "plus Infinity _ = Infinity"
| "plus NegInfinity _ = NegInfinity"
| "plus (Finite a) Infinity = Infinity"
| "plus (Finite a) NegInfinity = NegInfinity"
| "plus (Finite a) (Finite b) = Finite (a + b)"

definition minus :: "BigNumber \<Rightarrow> BigNumber \<Rightarrow> BigNumber" where
  "minus x y = plus x (negated y)"

text \<open>The signed infinity of a product or a quotient: positive when the signs agree.\<close>

definition signedInfinity :: "bool \<Rightarrow> bool \<Rightarrow> BigNumber" where
  "signedInfinity xpos ypos = (if xpos = ypos then Infinity else NegInfinity)"

fun times :: "BigNumber \<Rightarrow> BigNumber \<Rightarrow> BigNumber" where
  "times NaN _ = NaN"
| "times _ NaN = NaN"
| "times (Finite a) (Finite b) = Finite (a * b)"
| "times (Finite a) y = (if a = 0 then NaN else signedInfinity (0 < a) (isPositive y))"
| "times x (Finite b) = (if b = 0 then NaN else signedInfinity (isPositive x) (0 < b))"
| "times x y = signedInfinity (isPositive x) (isPositive y)"

fun dividedBy :: "BigNumber \<Rightarrow> BigNumber \<Rightarrow> BigNumber" where
  "dividedBy NaN _ = NaN"
| "dividedBy _ NaN = NaN"
| "dividedBy (Finite a) (Finite b) =
     (if b = 0 then (if a = 0 then NaN else signedInfinity (0 < a) True)
      else Finite (round_half_up DECIMAL_PLACES (a / b)))"
| "dividedBy (Finite a) y = Finite 0"
| "dividedBy x (Finite b) = signedInfinity (isPositive x) (0 \<le> b)"
| "dividedBy x y = NaN"

text \<open>
  \<^verbatim>\<open>BigNumber.min(x, y)\<close>: NaN when either argument is NaN, else the smaller one
  (the first when they are equal).
\<close>

definition BigNumber_min :: "BigNumber \<Rightarrow> BigNumber \<Rightarrow> BigNumber" where
  "BigNumber_min x y = (if isNaN y then y else if isGreaterThan x y then y else x)"

section \<open>Utils.calculateNeededCollateral\<close>

definition calculateNeededCollateral ::
  "BigNumber \<Rightarrow> BigNumber \<Rightarrow> BigNumber \<Rightarrow> BigNumber \<Rightarrow> BigNumber \<Rightarrow> BigNumber" where
  "calculateNeededCollateral priceFloor priceCap qtyMultiplier qty price =
     (let maxLoss =
        (if isPositive qty then
           (if lte price priceFloor then Finite 0 else minus price priceFloor)
         else
           (if gte price priceCap then Finite 0 else minus priceCap price))
      in times (times maxLoss (absoluteValue qty)) qtyMultiplier)"

section \<open>Strings, addresses and the call log\<close>

text \<open>
  A string is the list of its characters. The wrappers lower-case one kind of string
  only, a token address, and only after \<^verbatim>\<open>assert.isETHAddressHex\<close> has accepted it: a
  string of the characters \<^verbatim>\<open>0-9\<close>, \<^verbatim>\<open>a-f\<close>, \<^verbatim>\<open>A-F\<close>, \<^verbatim>\<open>x\<close> and \<^verbatim>\<open>X\<close>. On these
  \<^verbatim>\<open>toLowerCase\<close> maps the upper-case letters to the lower-case ones and keeps the rest.
\<close>

type_synonym address = string

definition lowerChar :: "char \<Rightarrow> char" where
  "lowerChar c =
     (case map_of (zip ''ABCDEFGHIJKLMNOPQRSTUVWXYZ'' ''abcdefghijklmnopqrstuvwxyz'') c of
        Some l \<Rightarrow> l
      | None \<Rightarrow> c)"

definition toLowerCase :: "address \<Rightarrow> address" where
  "toLowerCase s = map lowerChar s"

text \<open>\<^verbatim>\<open>constants.NULL_ADDRESS\<close>: the "open taker" sentinel, the zero address.\<close>

definition NULL_ADDRESS :: address where
  "NULL_ADDRESS = ''0x0000000000000000000000000000000000000000''"

definition isHexDigit :: "char \<Rightarrow> bool" where
  "isHexDigit c = (c \<in> set ''0123456789abcdefABCDEF'')"

text \<open>
  \<^verbatim>\<open>assert.isETHAddressHex\<close> tests the regular expression
  \<^verbatim>\<open>/^(0x){1}[0-9a-fA-F]{40}$/i\<close>: the prefix in either case, then exactly forty
  hexadecimal digits.
\<close>

definition isETHAddressHex :: "address \<Rightarrow> bool" where
  "isETHAddressHex a =
     (length a = 42 \<and> (take 2 a = ''0x'' \<or> take 2 a = ''0X'') \<and> list_all isHexDigit (drop 2 a))"

datatype MarketError =
    ContractAlreadySettled
  | InvalidTaker
  | OrderExpired
  | OrderFilledOrCancelled
  | BuySellMismatch
  | InvalidSignature
  | UserNotEnabledForContract
  | InsufficientBalanceForTransfer
  | InsufficientAllowanceForTransfer
  | InsufficientCollateralBalance
  | UserHasNoAssociatedPositions

text \<open>
  A call ends in a value or in a failure: a rejection \<^verbatim>\<open>new Error(MarketError.X)\<close>, or
  the plain \<^verbatim>\<open>Error\<close> thrown by a failed \<^verbatim>\<open>assert\<close>.
\<close>

datatype Failure = MarketFailure MarketError | AssertionFailure

datatype ECSignature = ECSignature (sig_v: nat) (sig_r: string) (sig_s: string)

record SignedOrder =
  contractAddress :: address
  expirationTimestamp :: BigNumber
  feeRecipient :: address
  maker :: address
  makerFee :: BigNumber
  orderQty :: BigNumber
  price :: BigNumber
  remainingQty :: BigNumber
  salt :: BigNumber
  taker :: address
  takerFee :: BigNumber
  ecSignature :: ECSignature

record ITxParams =
  txFrom :: "address option"

text \<open>
  The execution backend, the signing collaborator and the parts of the SDK that are
  not among the sources (the \<^verbatim>\<open>Market\<close> facade, the schema validator, the typed
  contract classes) are consumed through their answers, and so is the clock. None of
  the reads changes the chain, so one record of answers serves a whole call. Every read
  is taken to return: a failure of the transport ends a call with an error that is no
  \<^verbatim>\<open>MarketError\<close> and is outside this model.
\<close>

record Backend =
  mktTokenContract_address :: address
  isSettled :: "address \<Rightarrow> bool"
  PRICE_FLOOR :: "address \<Rightarrow> BigNumber"
  PRICE_CAP :: "address \<Rightarrow> BigNumber"
  QTY_MULTIPLIER :: "address \<Rightarrow> BigNumber"
  getQtyFilledOrCancelledFromOrder :: "address \<Rightarrow> string \<Rightarrow> BigNumber"
  isUserEnabledForContract :: "address \<Rightarrow> address \<Rightarrow> bool"
  balanceOf :: "address \<Rightarrow> address \<Rightarrow> BigNumber"
  allowance :: "address \<Rightarrow> address \<Rightarrow> address \<Rightarrow> BigNumber"
  getUserAccountBalance :: "address \<Rightarrow> address \<Rightarrow> BigNumber"
  getAccounts :: "address list"
  getCurrentUnixTimestampSec :: BigNumber
  isSchemaValid :: "SignedOrder \<Rightarrow> bool"
  getOrderHash :: "SignedOrder \<Rightarrow> string"
  createOrderHashAsync :: "address \<Rightarrow> SignedOrder \<Rightarrow> string"
  isValidSignatureAsync :: "address \<Rightarrow> SignedOrder \<Rightarrow> string \<Rightarrow> bool"
  tradeOrderTx :: "SignedOrder \<Rightarrow> BigNumber \<Rightarrow> ITxParams \<Rightarrow> string"
  getTransaction_blockNumber :: "string \<Rightarrow> nat"

text \<open>The calls made to the backend, logged in the order they are awaited.\<close>

datatype Call =
    Read_isSettled address
  | Read_PRICE_FLOOR address
  | Read_PRICE_CAP address
  | Read_QTY_MULTIPLIER address
  | Read_getQtyFilledOrCancelledFromOrder address string
  | Read_isUserEnabledForContract address address
  | Read_balanceOf address address
  | Read_allowance address address address
  | Read_getUserAccountBalance address address
  | Read_getAccounts
  | Read_createOrderHash address
  | Read_isValidSignature address string
  | Send_tradeOrderTx SignedOrder BigNumber ITxParams
  | Read_getTransaction string

text \<open>
  An \<^verbatim>\<open>async\<close> function is a function from the log of calls made so far to its
  outcome and the extended log. \<open>await\<close> sequences two of them and stops at the first
  failure, as a rejected promise ends the \<^verbatim>\<open>async\<close> function that awaits it.
\<close>

type_synonym 'a Promise = "Call list \<Rightarrow> (Failure + 'a) \<times> Call list"

definition resolve :: "'a \<Rightarrow> 'a Promise" where
  "resolve x = (\<lambda>trace. (Inr x, trace))"

definition reject :: "MarketError \<Rightarrow> 'a Promise" where
  "reject e = (\<lambda>trace. (Inl (MarketFailure e), trace))"

definition throw :: "'a Promise" where
  "throw = (\<lambda>trace. (Inl AssertionFailure, trace))"

definition await :: "'a Promise \<Rightarrow> ('a \<Rightarrow> 'b Promise) \<Rightarrow> 'b Promise" where
  "await m f = (\<lambda>trace. case m trace of (Inl e, trace') \<Rightarrow> (Inl e, trace')
                           | (Inr x, trace') \<Rightarrow> f x trace')"

definition backend :: "Call \<Rightarrow> 'a \<Rightarrow> 'a Promise" where
  "backend c answer = (\<lambda>trace. (Inr answer, trace @ [c]))"

definition assert :: "bool \<Rightarrow> unit Promise" where
  "assert condition = (if condition then resolve () else throw)"

text \<open>A call started on an empty log: its outcome, and the calls it made.\<close>

definition outcome :: "'a Promise \<Rightarrow> Failure + 'a" where
  "outcome p = fst (p [])"

definition calls :: "'a Promise \<Rightarrow> Call list" where
  "calls p = snd (p [])"

section \<open>Reads of contract terms, collateral and fills\<close>

text \<open>
  \<^verbatim>\<open>calculateNeededCollateralAsync\<close>, \<^verbatim>\<open>getUserUnallocatedCollateralBalanceAsync\<close> and
  \<^verbatim>\<open>getQtyFilledOrCancelledFromOrderAsync\<close> of the \<^verbatim>\<open>ContractWrapper\<close> look the contract
  set of the market contract up and read from it. The lookup is a memo of typed contract
  objects kept under the lower-cased address; it checks nothing and is not logged.
\<close>

definition calculateNeededCollateralAsync ::
  "Backend \<Rightarrow> address \<Rightarrow> BigNumber \<Rightarrow> BigNumber \<Rightarrow> BigNumber Promise" where
  "calculateNeededCollateralAsync be marketContractAddress qty prc =
     await (backend (Read_PRICE_FLOOR marketContractAddress) (PRICE_FLOOR be marketContractAddress))
       (\<lambda>priceFloor.
     await (backend (Read_PRICE_CAP marketContractAddress) (PRICE_CAP be marketContractAddress))
       (\<lambda>priceCap.
     await (backend (Read_QTY_MULTIPLIER marketContractAddress)
              (QTY_MULTIPLIER be marketContractAddress))
       (\<lambda>qtyMultiplier.
     resolve (calculateNeededCollateral priceFloor priceCap qtyMultiplier qty prc))))"

definition getUserUnallocatedCollateralBalanceAsync ::
  "Backend \<Rightarrow> address \<Rightarrow> address \<Rightarrow> BigNumber Promise" where
  "getUserUnallocatedCollateralBalanceAsync be marketContractAddress userAddress =
     backend (Read_getUserAccountBalance marketContractAddress userAddress)
       (getUserAccountBalance be marketContractAddress userAddress)"

definition getQtyFilledOrCancelledFromOrderAsync ::
  "Backend \<Rightarrow> address \<Rightarrow> string \<Rightarrow> BigNumber Promise" where
  "getQtyFilledOrCancelledFromOrderAsync be marketContractAddress orderHash =
     backend (Read_getQtyFilledOrCancelledFromOrder marketContractAddress orderHash)
       (getQtyFilledOrCancelledFromOrder be marketContractAddress orderHash)"

section \<open>ContractWrapper: reads of a token\<close>

text \<open>
  \<^verbatim>\<open>ContractWrapper.getBalanceAsync\<close> and \<^verbatim>\<open>getAllowanceAsync\<close> assert the format of
  their arguments before they read the token contract, which they look up under the
  lower-cased token address; \<^verbatim>\<open>getAllowanceAsync\<close> also asserts, through
  \<^verbatim>\<open>assert.isSenderAddressAsync\<close>, that the owner is one of the node's accounts, which
  it asks the node for. A failed assertion throws a plain \<^verbatim>\<open>Error\<close>.
\<close>

definition getBalanceAsync :: "Backend \<Rightarrow> address \<Rightarrow> address \<Rightarrow> BigNumber Promise" where
  "getBalanceAsync be tokenAddress ownerAddress =
     await (assert (isETHAddressHex ownerAddress)) (\<lambda>_.
     await (assert (isETHAddressHex tokenAddress)) (\<lambda>_.
     backend (Read_balanceOf (toLowerCase tokenAddress) ownerAddress)
       (balanceOf be (toLowerCase tokenAddress) ownerAddress)))"

definition isSenderAddressAsync :: "Backend \<Rightarrow> address \<Rightarrow> unit Promise" where
  "isSenderAddressAsync be senderAddress =
     await (assert (isETHAddressHex senderAddress)) (\<lambda>_.
     await (backend Read_getAccounts (getAccounts be)) (\<lambda>accounts.
     assert (senderAddress \<in> set accounts)))"

definition getAllowanceAsync ::
  "Backend \<Rightarrow> address \<Rightarrow> address \<Rightarrow> address \<Rightarrow> BigNumber Promise" where
  "getAllowanceAsync be tokenAddress ownerAddress spenderAddress =
     await (assert (isETHAddressHex ownerAddress)) (\<lambda>_.
     await (assert (isETHAddressHex tokenAddress)) (\<lambda>_.
     await (assert (isETHAddressHex spenderAddress)) (\<lambda>_.
     await (isSenderAddressAsync be ownerAddress) (\<lambda>_.
     backend (Read_allowance (toLowerCase tokenAddress) ownerAddress spenderAddress)
       (allowance be (toLowerCase tokenAddress) ownerAddress spenderAddress)))))"

section \<open>RemainingFillableCalculator\<close>

text \<open>
  The calculator holds the \<^verbatim>\<open>Market\<close> facade, the signed order and its hash. The
  facade is not among the sources: its three methods of the names above are taken to be
  the wrapper's, and its \<^verbatim>\<open>marketContractWrapper\<close> to be the \<^verbatim>\<open>ContractWrapper\<close>, the
  class of the sources that has \<^verbatim>\<open>getAllowanceAsync\<close> and \<^verbatim>\<open>getBalanceAsync\<close>.

  \<^verbatim>\<open>_getAvailableFeeFunds\<close>: the allowance is read, with the assertions of
  \<^verbatim>\<open>getAllowanceAsync\<close>, and compared first; the balance is read only when the allowance
  suffices. \<^verbatim>\<open>new BigNumber(allowance)\<close> copies the number it is given.
\<close>

definition getAvailableFeeFunds :: "Backend \<Rightarrow> SignedOrder \<Rightarrow> address \<Rightarrow> BigNumber Promise" where
  "getAvailableFeeFunds be signedOrder accountAddress =
     await (getAllowanceAsync be (mktTokenContract_address be) accountAddress
              (feeRecipient signedOrder))
       (\<lambda>allowed.
     if (accountAddress = maker signedOrder \<and> isLessThan allowed (makerFee signedOrder)) \<or>
        (accountAddress = taker signedOrder \<and> isLessThan allowed (takerFee signedOrder))
     then reject InsufficientAllowanceForTransfer
     else getBalanceAsync be (mktTokenContract_address be) accountAddress)"

definition hasMakerSufficientFundsForFee :: "Backend \<Rightarrow> SignedOrder \<Rightarrow> bool Promise" where
  "hasMakerSufficientFundsForFee be signedOrder =
     await (getAvailableFeeFunds be signedOrder (maker signedOrder))
       (\<lambda>makerMktBalance. resolve (gte makerMktBalance (makerFee signedOrder)))"

definition hasTakerSufficientFundsForFee :: "Backend \<Rightarrow> SignedOrder \<Rightarrow> bool Promise" where
  "hasTakerSufficientFundsForFee be signedOrder =
     await (getAvailableFeeFunds be signedOrder (taker signedOrder))
       (\<lambda>takerMktBalance. resolve (gte takerMktBalance (takerFee signedOrder)))"

text \<open>
  \<^verbatim>\<open>_getAvailableCollateral\<close> returns \<^verbatim>\<open>balance || new BigNumber(0)\<close>. The balance is a
  \<^verbatim>\<open>BigNumber\<close> object, and every object is truthy (a zero and a NaN one too), so the
  balance is returned as it was read.
\<close>

definition getAvailableCollateral :: "Backend \<Rightarrow> SignedOrder \<Rightarrow> address \<Rightarrow> BigNumber Promise" where
  "getAvailableCollateral be signedOrder accountAddress =
     getUserUnallocatedCollateralBalanceAsync be (contractAddress signedOrder) accountAddress"

definition computeRemainingMakerFillable ::
  "Backend \<Rightarrow> SignedOrder \<Rightarrow> string \<Rightarrow> BigNumber Promise" where
  "computeRemainingMakerFillable be signedOrder signedOrderHash =
     await (hasMakerSufficientFundsForFee be signedOrder)
       (\<lambda>hasAvailableFeeFunds.
     if \<not> hasAvailableFeeFunds then reject InsufficientBalanceForTransfer
     else
     await (getAvailableCollateral be signedOrder (maker signedOrder))
       (\<lambda>makerAvailableCollateral.
     await (calculateNeededCollateralAsync be (contractAddress signedOrder)
              (orderQty signedOrder) (price signedOrder))
       (\<lambda>neededCollateral.
     await (getQtyFilledOrCancelledFromOrderAsync be (contractAddress signedOrder)
              signedOrderHash)
       (\<lambda>alreadyFilledOrCancelled.
     let remainingToFill = minus (orderQty signedOrder) alreadyFilledOrCancelled;
         fillableQty = times (dividedBy makerAvailableCollateral neededCollateral)
                         (orderQty signedOrder)
     in resolve (BigNumber_min fillableQty remainingToFill)))))"

definition computeRemainingTakerFillable ::
  "Backend \<Rightarrow> SignedOrder \<Rightarrow> string \<Rightarrow> BigNumber Promise" where
  "computeRemainingTakerFillable be signedOrder signedOrderHash =
     await (computeRemainingMakerFillable be signedOrder signedOrderHash)
       (\<lambda>makerFillable.
     if taker signedOrder = NULL_ADDRESS then resolve makerFillable
     else
     await (getAvailableCollateral be signedOrder (taker signedOrder))
       (\<lambda>takerAvailableCollateral.
     await (hasTakerSufficientFundsForFee be signedOrder)
       (\<lambda>hasAvailableFeeFunds.
     if \<not> hasAvailableFeeFunds then reject InsufficientBalanceForTransfer
     else
     await (calculateNeededCollateralAsync be (contractAddress signedOrder)
              (orderQty signedOrder) (price signedOrder))
       (\<lambda>neededCollateral.
     let takerFillable = times (dividedBy takerAvailableCollateral neededCollateral)
                           (orderQty signedOrder)
     in resolve (BigNumber_min makerFillable takerFillable)))))"

section \<open>ContractWrapper: the trade\<close>

text \<open>
  The transaction metadata returned by a trade. The class \<^verbatim>\<open>OrderTransactionInfo\<close> is
  not among the sources; \<^verbatim>\<open>ContractWrapper.tradeOrderAsync\<close> constructs it from three
  arguments, the market contract, the echoed order and the transaction hash, and
  \<^verbatim>\<open>MarketProtocolContractWrapper.tradeOrderAsync\<close> from four, the block number last.
  The market contract object is represented by its address.
\<close>

datatype OrderTransactionInfo =
  OrderTransactionInfo (info_marketContract: address) (info_order: SignedOrder)
    (info_txHash: string) (info_blockNumber: "nat option")

text \<open>
  The effective taker is the sender of the transaction: \<^verbatim>\<open>txParams.from\<close> when it is
  truthy (present and not the empty string), else the null address.
\<close>

definition effectiveTaker :: "ITxParams \<Rightarrow> address" where
  "effectiveTaker txParams =
     (case txFrom txParams of
        None \<Rightarrow> NULL_ADDRESS
      | Some sender \<Rightarrow> if sender = [] then NULL_ADDRESS else sender)"

definition tradeOrderAsync ::
  "Backend \<Rightarrow> address \<Rightarrow> SignedOrder \<Rightarrow> BigNumber \<Rightarrow> ITxParams \<Rightarrow> OrderTransactionInfo Promise"
  where
  "tradeOrderAsync be orderLib signedOrder fillQty txParams =
     await (assert (isSchemaValid be signedOrder)) (\<lambda>_.
     await (backend (Read_isSettled (contractAddress signedOrder))
              (isSettled be (contractAddress signedOrder))) (\<lambda>isContractSettled.
     if isContractSettled then reject ContractAlreadySettled
     else
     let mkr = maker signedOrder; tkr = effectiveTaker txParams in
     if taker signedOrder \<noteq> NULL_ADDRESS \<and> taker signedOrder \<noteq> tkr then reject InvalidTaker
     else if isLessThan (expirationTimestamp signedOrder) (getCurrentUnixTimestampSec be)
     then reject OrderExpired
     else if isEqualTo (remainingQty signedOrder) (Finite 0) then reject OrderFilledOrCancelled
     else if isPositive (orderQty signedOrder) \<noteq> isPositive fillQty then reject BuySellMismatch
     else
     let orderHash = getOrderHash be signedOrder in
     await (backend (Read_isValidSignature orderLib orderHash)
              (isValidSignatureAsync be orderLib signedOrder orderHash)) (\<lambda>validSignature.
     if \<not> validSignature then reject InvalidSignature
     else
     await (backend (Read_isUserEnabledForContract (contractAddress signedOrder) mkr)
              (isUserEnabledForContract be (contractAddress signedOrder) mkr)) (\<lambda>isMakerEnabled.
     await (backend (Read_isUserEnabledForContract (contractAddress signedOrder) tkr)
              (isUserEnabledForContract be (contractAddress signedOrder) tkr)) (\<lambda>isTakerEnabled.
     if \<not> isMakerEnabled \<or> \<not> isTakerEnabled then reject UserNotEnabledForContract
     else
     await (getBalanceAsync be (mktTokenContract_address be) mkr) (\<lambda>makerMktBalance.
     if isLessThan makerMktBalance (makerFee signedOrder)
     then reject InsufficientBalanceForTransfer
     else
     await (getAllowanceAsync be (mktTokenContract_address be) mkr (feeRecipient signedOrder))
       (\<lambda>makersMktAllowance.
     if isLessThan makersMktAllowance (makerFee signedOrder)
     then reject InsufficientAllowanceForTransfer
     else
     await (getBalanceAsync be (mktTokenContract_address be) tkr) (\<lambda>takerMktBalance.
     if isLessThan takerMktBalance (takerFee signedOrder)
     then reject InsufficientBalanceForTransfer
     else
     await (getAllowanceAsync be (mktTokenContract_address be) tkr (feeRecipient signedOrder))
       (\<lambda>takersMktAllowance.
     if isLessThan takersMktAllowance (takerFee signedOrder)
     then reject InsufficientAllowanceForTransfer
     else
     await (getUserUnallocatedCollateralBalanceAsync be (contractAddress signedOrder) mkr)
       (\<lambda>makerCollateralBalance.
     await (getUserUnallocatedCollateralBalanceAsync be (contractAddress signedOrder) tkr)
       (\<lambda>takerCollateralBalance.
     await (calculateNeededCollateralAsync be (contractAddress signedOrder) fillQty
              (price signedOrder)) (\<lambda>neededCollateralMaker.
     await (calculateNeededCollateralAsync be (contractAddress signedOrder)
              (times fillQty (Finite (- 1))) (price signedOrder)) (\<lambda>neededCollateralTaker.
     if isLessThan makerCollateralBalance neededCollateralMaker
     then reject InsufficientCollateralBalance
     else if isLessThan takerCollateralBalance neededCollateralTaker
     then reject InsufficientCollateralBalance
     else
     await (backend (Send_tradeOrderTx signedOrder fillQty txParams)
              (tradeOrderTx be signedOrder fillQty txParams)) (\<lambda>txHash.
     resolve (OrderTransactionInfo (contractAddress signedOrder) signedOrder txHash
                None)))))))))))))))"

section \<open>MarketProtocolContractWrapper\<close>

text \<open>
  The second wrapper runs the same checks in the same order. It asserts the format of
  the order library's address instead of the order's schema, has the order hash computed
  by the order library, reads the fee token through an \<^verbatim>\<open>ERC20TokenContractWrapper\<close>
  (not among the sources: read through the backend) and looks the block number of the
  transaction up.
\<close>

definition getUserAccountBalanceAsync ::
  "Backend \<Rightarrow> address \<Rightarrow> address \<Rightarrow> BigNumber Promise" where
  "getUserAccountBalanceAsync be marketContractAddress userAddress =
     backend (Read_getUserAccountBalance marketContractAddress userAddress)
       (getUserAccountBalance be marketContractAddress userAddress)"

definition tradeOrderAsync_MarketProtocol ::
  "Backend \<Rightarrow> address \<Rightarrow> SignedOrder \<Rightarrow> BigNumber \<Rightarrow> ITxParams \<Rightarrow> OrderTransactionInfo Promise"
  where
  "tradeOrderAsync_MarketProtocol be orderLibAddress signedOrder fillQty txParams =
     await (assert (isETHAddressHex orderLibAddress)) (\<lambda>_.
     await (backend (Read_isSettled (contractAddress signedOrder))
              (isSettled be (contractAddress signedOrder))) (\<lambda>isContractSettled.
     if isContractSettled then reject ContractAlreadySettled
     else
     let mkr = maker signedOrder; tkr = effectiveTaker txParams in
     if taker signedOrder \<noteq> NULL_ADDRESS \<and> taker signedOrder \<noteq> tkr then reject InvalidTaker
     else if isLessThan (expirationTimestamp signedOrder) (getCurrentUnixTimestampSec be)
     then reject OrderExpired
     else if isEqualTo (remainingQty signedOrder) (Finite 0) then reject OrderFilledOrCancelled
     else if isPositive (orderQty signedOrder) \<noteq> isPositive fillQty then reject BuySellMismatch
     else
     await (backend (Read_createOrderHash orderLibAddress)
              (createOrderHashAsync be orderLibAddress signedOrder)) (\<lambda>orderHash.
     await (backend (Read_isValidSignature orderLibAddress orderHash)
              (isValidSignatureAsync be orderLibAddress signedOrder orderHash))
       (\<lambda>validSignature.
     if \<not> validSignature then reject InvalidSignature
     else
     await (backend (Read_isUserEnabledForContract (contractAddress signedOrder) mkr)
              (isUserEnabledForContract be (contractAddress signedOrder) mkr)) (\<lambda>isMakerEnabled.
     await (backend (Read_isUserEnabledForContract (contractAddress signedOrder) tkr)
              (isUserEnabledForContract be (contractAddress signedOrder) tkr)) (\<lambda>isTakerEnabled.
     if \<not> isMakerEnabled \<or> \<not> isTakerEnabled then reject UserNotEnabledForContract
     else
     await (backend (Read_balanceOf (mktTokenContract_address be) mkr)
              (balanceOf be (mktTokenContract_address be) mkr)) (\<lambda>makerMktBalance.
     if isLessThan makerMktBalance (makerFee signedOrder)
     then reject InsufficientBalanceForTransfer
     else
     await (backend (Read_allowance (mktTokenContract_address be) mkr (feeRecipient signedOrder))
              (allowance be (mktTokenContract_address be) mkr (feeRecipient signedOrder)))
       (\<lambda>makersMktAllowance.
     if isLessThan makersMktAllowance (makerFee signedOrder)
     then reject InsufficientAllowanceForTransfer
     else
     await (backend (Read_balanceOf (mktTokenContract_address be) tkr)
              (balanceOf be (mktTokenContract_address be) tkr)) (\<lambda>takerMktBalance.
     if isLessThan takerMktBalance (takerFee signedOrder)
     then reject InsufficientBalanceForTransfer
     else
     await (backend (Read_allowance (mktTokenContract_address be) tkr (feeRecipient signedOrder))
              (allowance be (mktTokenContract_address be) tkr (feeRecipient signedOrder)))
       (\<lambda>takersMktAllowance.
     if isLessThan takersMktAllowance (takerFee signedOrder)
     then reject InsufficientAllowanceForTransfer
     else
     await (getUserAccountBalanceAsync be (contractAddress signedOrder) mkr)
       (\<lambda>makerCollateralBalance.
     await (getUserAccountBalanceAsync be (contractAddress signedOrder) tkr)
       (\<lambda>takerCollateralBalance.
     await (calculateNeededCollateralAsync be (contractAddress signedOrder) fillQty
              (price signedOrder)) (\<lambda>neededCollateralMaker.
     await (calculateNeededCollateralAsync be (contractAddress signedOrder)
              (times fillQty (Finite (- 1))) (price signedOrder)) (\<lambda>neededCollateralTaker.
     if isLessThan makerCollateralBalance neededCollateralMaker
     then reject InsufficientCollateralBalance
     else if isLessThan takerCollateralBalance neededCollateralTaker
     then reject InsufficientCollateralBalance
     else
     await (backend (Send_tradeOrderTx signedOrder fillQty txParams)
              (tradeOrderTx be signedOrder fillQty txParams)) (\<lambda>txHash.
     await (backend (Read_getTransaction txHash) (getTransaction_blockNumber be txHash))
       (\<lambda>blockNumber.
     resolve (OrderTransactionInfo (contractAddress signedOrder) signedOrder txHash
                (Some blockNumber))))))))))))))))))"

section \<open>Standardized contract names\<close>

text \<open>
  \<^verbatim>\<open>String.prototype.split\<close> with a one-character separator: the pieces between the
  separators, one more than there are separators (the empty string gives one empty
  piece).
\<close>

fun String_split :: "char \<Rightarrow> string \<Rightarrow> string list" where
  "String_split sep [] = [ [] ]"
| "String_split sep (c # cs) =
     (if c = sep then [] # String_split sep cs
      else (case String_split sep cs of
              [] \<Rightarrow> [ [c] ]
            | piece # pieces \<Rightarrow> (c # piece) # pieces))"

text \<open>
  The two functions call three functions that are not the repository's and are their
  parameters here: \<open>toUpperCase\<close> stands for \<^verbatim>\<open>String.prototype.toUpperCase\<close> of the
  runtime, \<open>toString\<close> for \<^verbatim>\<open>BigNumber.prototype.toString\<close> and \<open>fromString\<close> for the
  constructor \<^verbatim>\<open>new BigNumber(string)\<close> of bignumber.js, with \<open>None\<close> where the constructor
  throws. \<^verbatim>\<open>concat\<close> appends its arguments in order.
\<close>

definition createStandardizedContractName ::
  "(string \<Rightarrow> string) \<Rightarrow> (BigNumber \<Rightarrow> string) \<Rightarrow>
   string \<Rightarrow> string \<Rightarrow> string \<Rightarrow> BigNumber \<Rightarrow> string \<Rightarrow> string" where
  "createStandardizedContractName toUpperCase toString referenceAssetName collateralTokenSymbol
     dataProvider expiration userTxt =
     toUpperCase referenceAssetName @ ''_'' @ toUpperCase collateralTokenSymbol @ ''_'' @
     toUpperCase dataProvider @ ''_'' @ toString expiration @ ''_'' @ toUpperCase userTxt"

record ParsedContractName =
  referenceAsset :: string
  collateralToken :: string
  dataProvider :: string
  expirationTimeStamp :: BigNumber
  userText :: string

definition parseStandardizedContractName ::
  "(string \<Rightarrow> BigNumber option) \<Rightarrow> string \<Rightarrow> ParsedContractName option" where
  "parseStandardizedContractName fromString contractName =
     (let splitName = String_split CHR ''_'' contractName in
      if length splitName < 4 then None
      else
        (case fromString (splitName ! 3) of
           None \<Rightarrow> None
         | Some expiration \<Rightarrow>
             Some \<lparr> referenceAsset = splitName ! 0,
                    collateralToken = splitName ! 1,
                    dataProvider = splitName ! 2,
                    expirationTimeStamp = expiration,
                    userText = (if length splitName > 4 then splitName ! 4 else []) \<rparr>))"

subsection \<open>The runtime and the library on the values of the tests\<close>

text \<open>
  The decimal digits of a natural number, most significant first, and the number a
  string of decimal digits denotes.
\<close>

definition digitChar :: "nat \<Rightarrow> char" where
  "digitChar d = ''0123456789'' ! d"

definition isDigit :: "char \<Rightarrow> bool" where
  "isDigit c = (c \<in> set ''0123456789'')"

definition digitValue :: "char \<Rightarrow> nat" where
  "digitValue c =
     (case map_of (zip ''0123456789'' [0, 1, 2, 3, 4, 5, 6, 7, 8, 9]) c of
        Some d \<Rightarrow> d
      | None \<Rightarrow> 0)"

function decimalDigits :: "nat \<Rightarrow> string" where
  "decimalDigits n =
     (if n < 10 then [digitChar n] else decimalDigits (n div 10) @ [digitChar (n mod 10)])"
  by pat_completeness auto
termination
  by (relation "measure id") auto

declare decimalDigits.simps [simp del]

definition digitsValue :: "string \<Rightarrow> nat" where
  "digitsValue s = foldl (\<lambda>acc c. 10 * acc + digitValue c) 0 s"

text \<open>
  For closed instances of the theorems the three parameters are given where what the
  runtime and the library do is plain, and are left unspecified everywhere else, so that
  nothing is stated about an argument outside these ranges:

  \<^item> \<^verbatim>\<open>toString\<close> prints NaN, Infinity and -Infinity by name, and a non-negative
    integer below \<open>10 ^ 21\<close> (every Unix timestamp is one) in plain decimal digits;
    negative numbers, fractions and the exponential notation of larger numbers are not
    given;
  \<^item> the constructor, which does not throw unless the library is put in its debug
    mode, reads a non-empty string of decimal digits as the integer it denotes and the
    three names as the three values; signs, fractions, exponents, other bases and
    malformed strings are not given;
  \<^item> \<^verbatim>\<open>toUpperCase\<close> maps the lower-case ASCII letters of a string of ASCII letters,
    digits, spaces and underscores to the upper-case ones and keeps the rest; strings
    with other characters are not given.
\<close>

definition BigNumber_toString :: "BigNumber \<Rightarrow> string" where
  "BigNumber_toString x =
     (case x of
        NaN \<Rightarrow> ''NaN''
      | Infinity \<Rightarrow> ''Infinity''
      | NegInfinity \<Rightarrow> ''-Infinity''
      | Finite r \<Rightarrow>
          if 0 \<le> r \<and> r < 10 ^ 21 \<and> r = of_int \<lfloor>r\<rfloor> then decimalDigits (nat \<lfloor>r\<rfloor>)
          else undefined)"

definition BigNumber_new :: "string \<Rightarrow> BigNumber option" where
  "BigNumber_new s =
     (if s \<noteq> [] \<and> list_all isDigit s then Some (Finite (of_nat (digitsValue s)))
      else if s = ''NaN'' then Some NaN
      else if s = ''Infinity'' then Some Infinity
      else if s = ''-Infinity'' then Some NegInfinity
      else undefined)"

definition upperChar :: "char \<Rightarrow> char" where
  "upperChar c =
     (case map_of (zip ''abcdefghijklmnopqrstuvwxyz'' ''ABCDEFGHIJKLMNOPQRSTUVWXYZ'') c of
        Some u \<Rightarrow> u
      | None \<Rightarrow> c)"

definition isPlainChar :: "char \<Rightarrow> bool" where
  "isPlainChar c =
     (c \<in> set ''abcdefghijklmnopqrstuvwxyzABCDEFGHIJKLMNOPQRSTUVWXYZ0123456789 _'')"

definition String_toUpperCase :: "string \<Rightarrow> string" where
  "String_toUpperCase s = (if list_all isPlainChar s then map upperChar s else undefined)"

section \<open>The trade precondition pipeline of the specification\<close>

text \<open>
  The checks of the specification's section 4.4, steps 1 to 9 in sequence, each with
  whether it is violated and the error named for it. Steps 8 and 9 are written out per
  party, the maker before the taker; step 8 compares the balance and then the allowance,
  as the wrappers do. The fee token's key and the order hash are parameters: the two
  wrappers obtain them differently.
\<close>

definition tradeOrderChecks ::
  "Backend \<Rightarrow> address \<Rightarrow> address \<Rightarrow> string \<Rightarrow> SignedOrder \<Rightarrow> BigNumber \<Rightarrow> ITxParams \<Rightarrow>
   (bool \<times> MarketError) list" where
  "tradeOrderChecks be orderLib feeToken orderHash signedOrder fillQty txParams =
     (let market = contractAddress signedOrder;
          mkr = maker signedOrder;
          tkr = effectiveTaker txParams;
          needed = (\<lambda>qty. calculateNeededCollateral (PRICE_FLOOR be market) (PRICE_CAP be market)
                            (QTY_MULTIPLIER be market) qty (price signedOrder))
      in
      [(isSettled be market, ContractAlreadySettled),
       (taker signedOrder \<noteq> NULL_ADDRESS \<and> taker signedOrder \<noteq> tkr, InvalidTaker),
       (isLessThan (expirationTimestamp signedOrder) (getCurrentUnixTimestampSec be),
        OrderExpired),
       (isEqualTo (remainingQty signedOrder) (Finite 0), OrderFilledOrCancelled),
       (isPositive (orderQty signedOrder) \<noteq> isPositive fillQty, BuySellMismatch),
       (\<not> isValidSignatureAsync be orderLib signedOrder orderHash, InvalidSignature),
       (\<not> isUserEnabledForContract be market mkr \<or> \<not> isUserEnabledForContract be market tkr,
        UserNotEnabledForContract),
       (isLessThan (balanceOf be feeToken mkr) (makerFee signedOrder),
        InsufficientBalanceForTransfer),
       (isLessThan (allowance be feeToken mkr (feeRecipient signedOrder)) (makerFee signedOrder),
        InsufficientAllowanceForTransfer),
       (isLessThan (balanceOf be feeToken tkr) (takerFee signedOrder),
        InsufficientBalanceForTransfer),
       (isLessThan (allowance be feeToken tkr (feeRecipient signedOrder)) (takerFee signedOrder),
        InsufficientAllowanceForTransfer),
       (isLessThan (getUserAccountBalance be market mkr) (needed fillQty),
        InsufficientCollateralBalance),
       (isLessThan (getUserAccountBalance be market tkr) (needed (times fillQty (Finite (- 1)))),
        InsufficientCollateralBalance)])"

text \<open>The error of the earliest violated check, if any check is violated.\<close>

definition firstViolation :: "(bool \<times> MarketError) list \<Rightarrow> MarketError option" where
  "firstViolation checks = map_option snd (find fst checks)"
text \<open>
  The position in the sequence of the earliest violated check; the length of the
  sequence when no check is violated.
\<close>

definition firstViolationIndex :: "(bool \<times> MarketError) list \<Rightarrow> nat" where
  "firstViolationIndex checks = length (takeWhile (\<lambda>c. \<not> fst c) checks)"

text \<open>
  The assertions that \<^verbatim>\<open>ContractWrapper.tradeOrderAsync\<close> evaluates before it comes to
  the check at position \<open>i\<close> of the sequence (positions count from 0; \<open>i\<close> is the length
  of the sequence for the submission). The schema of the order is asserted before the
  first check. The others are those of the reads of step 8, each made just before the
  comparison it feeds: \<^verbatim>\<open>getBalanceAsync\<close> for the maker (position 7) asserts the format
  of the maker's and of the fee token's address, \<^verbatim>\<open>getAllowanceAsync\<close> for the maker
  (position 8) that of the fee recipient's address and that the maker is an account of
  the node, \<^verbatim>\<open>getBalanceAsync\<close> for the taker (position 9) the format of the sender's
  address, and \<^verbatim>\<open>getAllowanceAsync\<close> for the taker (position 10) that the sender is an
  account of the node.
\<close>

definition assertionsBefore :: "Backend \<Rightarrow> SignedOrder \<Rightarrow> ITxParams \<Rightarrow> nat \<Rightarrow> bool" where
  "assertionsBefore be signedOrder txParams i =
     (isSchemaValid be signedOrder \<and>
      (7 \<le> i \<longrightarrow> isETHAddressHex (maker signedOrder) \<and>
                isETHAddressHex (mktTokenContract_address be)) \<and>
      (8 \<le> i \<longrightarrow> isETHAddressHex (feeRecipient signedOrder) \<and>
                maker signedOrder \<in> set (getAccounts be)) \<and>
      (9 \<le> i \<longrightarrow> isETHAddressHex (effectiveTaker txParams)) \<and>
      (10 \<le> i \<longrightarrow> effectiveTaker txParams \<in> set (getAccounts be)))"

text \<open>
  The assertions of \<^verbatim>\<open>getAllowanceAsync\<close> for an account's allowance to the fee
  recipient; they include those of \<^verbatim>\<open>getBalanceAsync\<close> for the account's balance.
\<close>

definition feeReadsAccepted :: "Backend \<Rightarrow> SignedOrder \<Rightarrow> address \<Rightarrow> bool" where
  "feeReadsAccepted be signedOrder account =
     (isETHAddressHex account \<and> isETHAddressHex (mktTokenContract_address be) \<and>
      isETHAddressHex (feeRecipient signedOrder) \<and> account \<in> set (getAccounts be))"

text \<open>The calls that submit a fill: calls to \<^verbatim>\<open>tradeOrderTx\<close>.\<close>

fun isSubmission :: "Call \<Rightarrow> bool" where
  "isSubmission (Send_tradeOrderTx _ _ _) = True"
| "isSubmission _ = False"

definition submissions :: "'a Promise \<Rightarrow> Call list" where
  "submissions p = filter isSubmission (calls p)"

section \<open>Test fixtures\<close>

text \<open>
  The setting of the order-validation tests: an order for quantity 100 at price 100000
  with fees of 100, an open taker, and a backend on which every check passes. The
  contract's floor, cap and multiplier are 50000, 150000 and 1.
\<close>

definition testContract :: address where
  "testContract = ''0xc0ffee0000000000000000000000000000000001''"

definition testMaker :: address where
  "testMaker = ''0x1111111111111111111111111111111111111111''"

definition testTaker :: address where
  "testTaker = ''0x2222222222222222222222222222222222222222''"

definition testFeeRecipient :: address where
  "testFeeRecipient = ''0x5555555555555555555555555555555555555555''"

definition testBackend :: Backend where
  "testBackend =
     \<lparr> mktTokenContract_address = ''0xABCDEF0000000000000000000000000000000002'',
       isSettled = (\<lambda>_. False),
       PRICE_FLOOR = (\<lambda>_. Finite 50000),
       PRICE_CAP = (\<lambda>_. Finite 150000),
       QTY_MULTIPLIER = (\<lambda>_. Finite 1),
       getQtyFilledOrCancelledFromOrder = (\<lambda>_ _. Finite 2),
       isUserEnabledForContract = (\<lambda>_ _. True),
       balanceOf = (\<lambda>_ _. Finite 100),
       allowance = (\<lambda>_ _ _. Finite 100),
       getUserAccountBalance = (\<lambda>_ _. Finite 2500000),
       getAccounts = [testMaker, testTaker],
       getCurrentUnixTimestampSec = Finite 1546300800,
       isSchemaValid = (\<lambda>_. True),
       getOrderHash = (\<lambda>_. ''0xhash''),
       createOrderHashAsync = (\<lambda>_ _. ''0xhash''),
       isValidSignatureAsync = (\<lambda>_ _ _. True),
       tradeOrderTx = (\<lambda>_ _ _. ''0xtx''),
       getTransaction_blockNumber = (\<lambda>_. 7) \<rparr>"

definition testOrder :: SignedOrder where
  "testOrder =
     \<lparr> contractAddress = testContract,
       expirationTimestamp = Finite 1546304400,
       feeRecipient = testFeeRecipient,
       maker = testMaker,
       makerFee = Finite 100,
       orderQty = Finite 100,
       price = Finite 100000,
       remainingQty = Finite 98,
       salt = Finite 1,
       taker = NULL_ADDRESS,
       takerFee = Finite 100,
       ecSignature = ECSignature 27 ''0x'' ''0x'' \<rparr>"

text \<open>The same order priced at the contract's floor, and a maker with no collateral.\<close>

definition atFloorOrder :: SignedOrder where
  "atFloorOrder = testOrder \<lparr> price := Finite 50000 \<rparr>"

definition emptyPoolBackend :: Backend where
  "emptyPoolBackend = testBackend \<lparr> getUserAccountBalance := (\<lambda>_ _. Finite 0) \<rparr>"

text \<open>
  A sell order for quantity -100 of which -2 is filled, and a maker whose collateral
  covers ten times the order.
\<close>

definition sellOrder :: SignedOrder where
  "sellOrder = testOrder \<lparr> orderQty := Finite (- 100), remainingQty := Finite (- 98) \<rparr>"

definition sellBackend :: Backend where
  "sellBackend = testBackend
     \<lparr> getQtyFilledOrCancelledFromOrder := (\<lambda>_ _. Finite (- 2)),
       getUserAccountBalance := (\<lambda>_ _. Finite 50000000) \<rparr>"

text \<open>
  The order library, the taker as sender of the fill, and backends on which the
  parties hold no fee token, have approved too little of it, or both.
\<close>

definition testOrderLib :: address where
  "testOrderLib = ''0x9999999999999999999999999999999999999999''"

definition testTxParams :: ITxParams where
  "testTxParams = \<lparr> txFrom = Some testTaker \<rparr>"

definition noFeeFundsBackend :: Backend where
  "noFeeFundsBackend = testBackend
     \<lparr> balanceOf := (\<lambda>_ _. Finite 0), allowance := (\<lambda>_ _ _. Finite 0) \<rparr>"

definition noBalanceBackend :: Backend where
  "noBalanceBackend = testBackend \<lparr> balanceOf := (\<lambda>_ _. Finite 0) \<rparr>"

definition noAllowanceBackend :: Backend where
  "noAllowanceBackend = testBackend \<lparr> allowance := (\<lambda>_ _ _. Finite 50) \<rparr>"

text \<open>The order restricted to the taker, and backends on which only the taker falls short.\<close>

definition takerOrder :: SignedOrder where
  "takerOrder = testOrder \<lparr> taker := testTaker \<rparr>"

definition takerNoAllowanceBackend :: Backend where
  "takerNoAllowanceBackend = testBackend
     \<lparr> allowance := (\<lambda>_ owner _. if owner = testTaker then Finite 50 else Finite 100) \<rparr>"

definition takerNoBalanceBackend :: Backend where
  "takerNoBalanceBackend = testBackend
     \<lparr> balanceOf := (\<lambda>_ owner. if owner = testTaker then Finite 0 else Finite 100) \<rparr>"

text \<open>
  A backend whose node holds the taker's account only, as when the maker is a remote
  party; on it the taker holds no fee token and nobody has collateral.
\<close>

definition remoteMakerBackend :: Backend where
  "remoteMakerBackend = testBackend
     \<lparr> balanceOf := (\<lambda>_ owner. if owner = testTaker then Finite 0 else Finite 100),
       getUserAccountBalance := (\<lambda>_ _. Finite 0),
       getAccounts := [testTaker] \<rparr>"

text \<open>The order with an expiration long past.\<close>

definition expiredOrder :: SignedOrder where
  "expiredOrder = testOrder \<lparr> expirationTimestamp := Finite 1 \<rparr>"

text \<open>
  The order priced three above the floor, so that its full quantity needs a collateral
  of 300, and a maker whose collateral is 200, two thirds of that.
\<close>

definition thirdsOrder :: SignedOrder where
  "thirdsOrder = testOrder \<lparr> price := Finite 50003 \<rparr>"

definition thirdsBackend :: Backend where
  "thirdsBackend = testBackend \<lparr> getUserAccountBalance := (\<lambda>_ _. Finite 200) \<rparr>"

text \<open>A backend on which the fee recipient has been approved for half the fee only, by a remote maker.\<close>

definition remoteMakerNoAllowanceBackend :: Backend where
  "remoteMakerNoAllowanceBackend = noAllowanceBackend \<lparr> getAccounts := [testTaker] \<rparr>"

section \<open>Properties of the collateral formula\<close>

lemma calculateNeededCollateral_Finite:
  "calculateNeededCollateral (Finite pf) (Finite pc) (Finite m) (Finite q) (Finite p) =
     Finite ((if 0 \<le> q then max 0 (p - pf) else max 0 (pc - p)) * \<bar>q\<bar> * m)"
  by (simp add: calculateNeededCollateral_def lte_def gte_def isGreaterThan_def minus_def
      max_def)

text \<open>
  Claim C1. On finite numbers, \<open>calculateNeededCollateral\<close> returns
  \<open>maxLoss * \<bar>qty\<bar> * qtyMultiplier\<close>, where \<open>maxLoss\<close> is \<open>max 0 (price - priceFloor)\<close>
  for a positive quantity and \<open>max 0 (priceCap - price)\<close> for a negative one. The function
  is a pure function of its five arguments: it takes no call log and returns none.
\<close>

theorem needed_collateral_formula:
  "(0 < q \<longrightarrow>
      calculateNeededCollateral (Finite pf) (Finite pc) (Finite m) (Finite q) (Finite p) =
        Finite (max 0 (p - pf) * \<bar>q\<bar> * m)) \<and>
   (q < 0 \<longrightarrow>
      calculateNeededCollateral (Finite pf) (Finite pc) (Finite m) (Finite q) (Finite p) =
        Finite (max 0 (pc - p) * \<bar>q\<bar> * m))"
  by (simp add: calculateNeededCollateral_Finite)

theorem needed_collateral_formula_witness:
  "calculateNeededCollateral (Finite 50) (Finite 150) (Finite 10) (Finite 2) (Finite 120) =
     Finite 1400 \<and>
   calculateNeededCollateral (Finite 50) (Finite 150) (Finite 10) (Finite (- 2)) (Finite 120) =
     Finite 600"
  using needed_collateral_formula [of 2 50 150 10 120]
    needed_collateral_formula [of "- 2" 50 150 10 120]
  by simp

text \<open>
  Claim C8. With a non-negative quantity multiplier the needed collateral is never
  negative, and between two quantities of the same sign the one of larger magnitude
  needs at least as much. The loss term is clamped at zero by the code itself, so the
  bounds \<open>priceFloor \<le> price \<le> priceCap\<close> and the signs of the prices, which the claim
  assumes, are not needed.
\<close>

theorem needed_collateral_nonneg_mono:
  assumes "0 \<le> m"
  shows "lte (Finite 0)
           (calculateNeededCollateral (Finite pf) (Finite pc) (Finite m) (Finite q) (Finite p)) \<and>
         (isPositive (Finite q1) = isPositive (Finite q2) \<and> \<bar>q1\<bar> \<le> \<bar>q2\<bar> \<longrightarrow>
          lte (calculateNeededCollateral (Finite pf) (Finite pc) (Finite m) (Finite q1) (Finite p))
            (calculateNeededCollateral (Finite pf) (Finite pc) (Finite m) (Finite q2) (Finite p)))"
proof -
  let ?loss = "\<lambda>x::rat. if 0 \<le> x then max 0 (p - pf) else max 0 (pc - p)"
  have loss: "0 \<le> ?loss x" for x by simp
  have "0 \<le> ?loss q * \<bar>q\<bar> * m"
    using assms loss [of q] by (intro mult_nonneg_nonneg) auto
  then have nonneg: "lte (Finite 0)
      (calculateNeededCollateral (Finite pf) (Finite pc) (Finite m) (Finite q) (Finite p))"
    unfolding calculateNeededCollateral_Finite lte_def by (auto simp: less_le)
  have mono: "lte
      (calculateNeededCollateral (Finite pf) (Finite pc) (Finite m) (Finite q1) (Finite p))
      (calculateNeededCollateral (Finite pf) (Finite pc) (Finite m) (Finite q2) (Finite p))"
    if s: "isPositive (Finite q1) = isPositive (Finite q2)" and le: "\<bar>q1\<bar> \<le> \<bar>q2\<bar>"
  proof -
    from s have "?loss q1 = ?loss q2" by simp
    moreover have "?loss q2 * \<bar>q1\<bar> * m \<le> ?loss q2 * \<bar>q2\<bar> * m"
      using le assms loss [of q2] by (intro mult_right_mono mult_left_mono) auto
    ultimately have "?loss q1 * \<bar>q1\<bar> * m \<le> ?loss q2 * \<bar>q2\<bar> * m" by simp
    then show ?thesis
      unfolding calculateNeededCollateral_Finite lte_def by (auto simp: less_le)
  qed
  from nonneg mono show ?thesis by blast
qed

theorem needed_collateral_nonneg_mono_witness:
  "(0::rat) \<le> 10 \<and>
   isPositive (Finite (- 2)) = isPositive (Finite (- 3)) \<and> \<bar>- 2 :: rat\<bar> \<le> \<bar>- 3\<bar> \<and>
   lte (Finite 0)
     (calculateNeededCollateral (Finite 50) (Finite 150) (Finite 10) (Finite (- 3)) (Finite 120)) \<and>
   lte (calculateNeededCollateral (Finite 50) (Finite 150) (Finite 10) (Finite (- 2)) (Finite 120))
     (calculateNeededCollateral (Finite 50) (Finite 150) (Finite 10) (Finite (- 3)) (Finite 120))"
proof -
  have h: "(0::rat) \<le> 10" by simp
  have s: "isPositive (Finite (- 2)) = isPositive (Finite (- 3))" "\<bar>- 2 :: rat\<bar> \<le> \<bar>- 3\<bar>"
    by simp_all
  show ?thesis
    using h s needed_collateral_nonneg_mono [OF h, where pf = 50 and pc = 150 and p = 120
        and q = "- 3" and ?q1.0 = "- 2" and ?q2.0 = "- 3"]
    by blast
qed

section \<open>Running a promise\<close>

text \<open>
  A promise applied to a log is run by unfolding the five combinators; the simplifier
  then follows the call, one awaited step after the other.
\<close>

lemmas run_defs = await_def resolve_def reject_def throw_def backend_def

lemmas wrapper_defs = getBalanceAsync_def getAllowanceAsync_def isSenderAddressAsync_def
  assert_def getUserUnallocatedCollateralBalanceAsync_def getUserAccountBalanceAsync_def
  getQtyFilledOrCancelledFromOrderAsync_def calculateNeededCollateralAsync_def

section \<open>Rounding of quotients\<close>

lemma floor_rat_numeral: "\<lfloor>numeral a / numeral b :: rat\<rfloor> = numeral a div numeral b"
  by (metis floor_divide_of_int_eq of_int_numeral)

text \<open>A quotient that has at most \<open>dp\<close> decimal places is not changed by the rounding.\<close>

lemma round_half_up_exact:
  assumes "x * 10 ^ dp \<in> \<int>"
  shows "round_half_up dp x = x"
proof -
  from assms obtain k where k: "x * 10 ^ dp = of_int k" by (auto elim: Ints_cases)
  have x: "x = of_int k / 10 ^ dp" using k by (simp add: field_simps)
  have "\<lfloor>of_int k + (1::rat) / 2\<rfloor> = k" "\<lfloor>of_int (- k) + (1::rat) / 2\<rfloor> = - k"
    by linarith+
  then show ?thesis
    using k by (simp add: round_half_up_def x)
qed

lemma round_half_up_nonneg: "0 \<le> x \<Longrightarrow> 0 \<le> round_half_up dp x"
proof -
  assume x: "0 \<le> x"
  then have "0 \<le> x * 10 ^ dp + 1 / 2" by simp
  then have "0 \<le> \<lfloor>x * 10 ^ dp + 1 / 2\<rfloor>" by simp
  then show ?thesis using x by (simp add: round_half_up_def)
qed

text \<open>The rounding moves a quotient by at most half a unit of the last place.\<close>

lemma round_half_up_error: "\<bar>round_half_up dp x - x\<bar> \<le> 1 / (2 * 10 ^ dp)"
proof -
  have *: "\<bar>of_int \<lfloor>y + 1 / 2\<rfloor> - y\<bar> \<le> 1 / 2" for y :: rat
    by linarith
  have p: "(0::rat) < 10 ^ dp" by simp
  show ?thesis
  proof (cases "0 \<le> x")
    case True
    have "\<bar>round_half_up dp x - x\<bar> =
        \<bar>of_int \<lfloor>x * 10 ^ dp + 1 / 2\<rfloor> - x * 10 ^ dp\<bar> / 10 ^ dp"
      using True p by (simp add: round_half_up_def field_simps flip: abs_mult)
    also have "\<dots> \<le> (1 / 2) / 10 ^ dp"
      using * [of "x * 10 ^ dp"] p by (intro divide_right_mono) auto
    finally show ?thesis by simp
  next
    case False
    have "\<bar>round_half_up dp x - x\<bar> =
        \<bar>of_int \<lfloor>- x * 10 ^ dp + 1 / 2\<rfloor> - (- x * 10 ^ dp)\<bar> / 10 ^ dp"
      using False p by (simp add: round_half_up_def field_simps flip: abs_mult)
    also have "\<dots> \<le> (1 / 2) / 10 ^ dp"
      using * [of "- x * 10 ^ dp"] p by (intro divide_right_mono) auto
    finally show ?thesis by simp
  qed
qed

section \<open>The fixtures pass the assertions\<close>

lemma isETHAddressHex_fixtures:
  "isETHAddressHex testMaker" "isETHAddressHex testTaker" "isETHAddressHex testFeeRecipient"
  "isETHAddressHex testOrderLib" "isETHAddressHex (mktTokenContract_address testBackend)"
  by (simp_all add: isETHAddressHex_def isHexDigit_def testMaker_def testTaker_def
      testFeeRecipient_def testOrderLib_def testBackend_def)

lemma fixture_accounts:
  "testMaker \<noteq> testTaker" "testTaker \<noteq> testMaker" "testTaker \<noteq> []"
  "testTaker \<noteq> NULL_ADDRESS" "NULL_ADDRESS \<noteq> testTaker"
  by (simp_all add: testMaker_def testTaker_def NULL_ADDRESS_def)

lemma feeReadsAccepted_testBackend:
  "feeReadsAccepted testBackend testOrder testMaker"
  "feeReadsAccepted testBackend testOrder testTaker"
  using isETHAddressHex_fixtures
  by (simp_all add: feeReadsAccepted_def testOrder_def) (simp_all add: testBackend_def)

section \<open>The remaining fillable quantity\<close>

text \<open>
  Every run of the shared sub-check \<^verbatim>\<open>_getAvailableFeeFunds\<close>: the assertions of the
  allowance read, the allowance, the balance.
\<close>

lemma getAvailableFeeFunds_run:
  "getAvailableFeeFunds be so account tr =
     (let tok = toLowerCase (mktTokenContract_address be);
          allowed = allowance be tok account (feeRecipient so)
      in
      if \<not> (isETHAddressHex account \<and> isETHAddressHex (mktTokenContract_address be) \<and>
             isETHAddressHex (feeRecipient so))
      then (Inl AssertionFailure, tr)
      else if account \<notin> set (getAccounts be)
      then (Inl AssertionFailure, tr @ [Read_getAccounts])
      else if (account = maker so \<and> isLessThan allowed (makerFee so)) \<or>
         (account = taker so \<and> isLessThan allowed (takerFee so))
      then (Inl (MarketFailure InsufficientAllowanceForTransfer),
            tr @ [Read_getAccounts, Read_allowance tok account (feeRecipient so)])
      else (Inr (balanceOf be tok account),
            tr @ [Read_getAccounts, Read_allowance tok account (feeRecipient so),
                  Read_balanceOf tok account]))"
  by (auto simp add: getAvailableFeeFunds_def wrapper_defs run_defs Let_def)

text \<open>
  Every run of \<open>computeRemainingMakerFillable\<close>: its outcome and the reads it makes, in
  order.
\<close>

lemma computeRemainingMakerFillable_run:
  "computeRemainingMakerFillable be so h tr =
     (let tok = toLowerCase (mktTokenContract_address be);
          allowed = allowance be tok (maker so) (feeRecipient so);
          c = contractAddress so;
          reads3 = [Read_getAccounts, Read_allowance tok (maker so) (feeRecipient so),
                    Read_balanceOf tok (maker so)]
      in
      if \<not> (isETHAddressHex (maker so) \<and> isETHAddressHex (mktTokenContract_address be) \<and>
             isETHAddressHex (feeRecipient so))
      then (Inl AssertionFailure, tr)
      else if maker so \<notin> set (getAccounts be)
      then (Inl AssertionFailure, tr @ [Read_getAccounts])
      else if isLessThan allowed (makerFee so) \<or>
              (maker so = taker so \<and> isLessThan allowed (takerFee so))
      then (Inl (MarketFailure InsufficientAllowanceForTransfer),
            tr @ [Read_getAccounts, Read_allowance tok (maker so) (feeRecipient so)])
      else if \<not> gte (balanceOf be tok (maker so)) (makerFee so)
      then (Inl (MarketFailure InsufficientBalanceForTransfer), tr @ reads3)
      else (Inr (BigNumber_min
                  (times (dividedBy (getUserAccountBalance be c (maker so))
                     (calculateNeededCollateral (PRICE_FLOOR be c) (PRICE_CAP be c)
                        (QTY_MULTIPLIER be c) (orderQty so) (price so))) (orderQty so))
                  (minus (orderQty so) (getQtyFilledOrCancelledFromOrder be c h))),
            tr @ reads3 @ [Read_getUserAccountBalance c (maker so), Read_PRICE_FLOOR c,
               Read_PRICE_CAP c, Read_QTY_MULTIPLIER c, Read_getQtyFilledOrCancelledFromOrder c h]))"
  unfolding computeRemainingMakerFillable_def hasMakerSufficientFundsForFee_def
  by (auto simp add: getAvailableFeeFunds_run getAvailableCollateral_def
      getUserUnallocatedCollateralBalanceAsync_def getQtyFilledOrCancelledFromOrderAsync_def
      calculateNeededCollateralAsync_def run_defs Let_def)

lemma isLessThan_not_gte: "isLessThan x y \<Longrightarrow> \<not> gte x y"
  by (cases x; cases y) (auto simp: gte_def isGreaterThan_def)

lemma BigNumber_min_Finite: "BigNumber_min (Finite a) (Finite b) = Finite (min a b)"
  by (simp add: BigNumber_min_def isGreaterThan_def min_def)

lemma BigNumber_min_NaN: "BigNumber_min NaN y = NaN"
  by (cases y) (simp_all add: BigNumber_min_def isGreaterThan_def)

text \<open>What a passed fee sub-check has established.\<close>

lemma hasMakerSufficientFundsForFee_True:
  assumes "outcome (hasMakerSufficientFundsForFee be so) = Inr True"
  shows "feeReadsAccepted be so (maker so)"
    and "\<not> (isLessThan (allowance be (toLowerCase (mktTokenContract_address be)) (maker so)
                 (feeRecipient so)) (makerFee so) \<or>
            (maker so = taker so \<and>
             isLessThan (allowance be (toLowerCase (mktTokenContract_address be)) (maker so)
               (feeRecipient so)) (takerFee so)))"
    and "gte (balanceOf be (toLowerCase (mktTokenContract_address be)) (maker so)) (makerFee so)"
  using assms
  by (auto simp: outcome_def hasMakerSufficientFundsForFee_def getAvailableFeeFunds_run
      feeReadsAccepted_def run_defs Let_def split: if_splits)

lemma computeRemainingMakerFillable_passed:
  assumes fee: "outcome (hasMakerSufficientFundsForFee be so) = Inr True"
  shows "outcome (computeRemainingMakerFillable be so h) =
           Inr (BigNumber_min
                  (times (dividedBy (getUserAccountBalance be (contractAddress so) (maker so))
                            (calculateNeededCollateral (PRICE_FLOOR be (contractAddress so))
                               (PRICE_CAP be (contractAddress so))
                               (QTY_MULTIPLIER be (contractAddress so))
                               (orderQty so) (price so)))
                     (orderQty so))
                  (minus (orderQty so)
                     (getQtyFilledOrCancelledFromOrder be (contractAddress so) h)))"
  using hasMakerSufficientFundsForFee_True [OF fee]
  by (simp add: outcome_def computeRemainingMakerFillable_run Let_def feeReadsAccepted_def)

text \<open>The fee sub-check passes on the fixtures whose maker holds the fee.\<close>

lemma hasMakerSufficientFundsForFee_fixtures:
  "outcome (hasMakerSufficientFundsForFee testBackend testOrder) = Inr True"
  "outcome (hasMakerSufficientFundsForFee emptyPoolBackend atFloorOrder) = Inr True"
  "outcome (hasMakerSufficientFundsForFee sellBackend sellOrder) = Inr True"
  "outcome (hasMakerSufficientFundsForFee thirdsBackend thirdsOrder) = Inr True"
  using feeReadsAccepted_testBackend(1)
  by (simp_all add: outcome_def hasMakerSufficientFundsForFee_def getAvailableFeeFunds_run
      feeReadsAccepted_def run_defs Let_def emptyPoolBackend_def atFloorOrder_def
      sellBackend_def sellOrder_def thirdsBackend_def thirdsOrder_def gte_def isGreaterThan_def)
    (simp_all add: testBackend_def testOrder_def)

text \<open>
  Claim C4, as stated, at a quotient of more than 20 decimal places. The order is for
  quantity 100, of which 2 are filled; its full quantity needs a collateral of 300 and
  the maker has 200. \<^verbatim>\<open>dividedBy\<close> rounds 200 / 300 to 0.66666666666666666667, and the
  call returns 66.666666666666666667, which is not \<open>(200 / 300) * 100\<close>, the minimum the
  claim names.
\<close>

theorem maker_fillable_rounds_quotient:
  "outcome (hasMakerSufficientFundsForFee thirdsBackend thirdsOrder) = Inr True \<and>
   orderQty thirdsOrder = Finite 100 \<and>
   calculateNeededCollateral (PRICE_FLOOR thirdsBackend (contractAddress thirdsOrder))
     (PRICE_CAP thirdsBackend (contractAddress thirdsOrder))
     (QTY_MULTIPLIER thirdsBackend (contractAddress thirdsOrder))
     (orderQty thirdsOrder) (price thirdsOrder) = Finite 300 \<and>
   getUserAccountBalance thirdsBackend (contractAddress thirdsOrder) (maker thirdsOrder) =
     Finite 200 \<and>
   getQtyFilledOrCancelledFromOrder thirdsBackend (contractAddress thirdsOrder) ''0xhash'' =
     Finite 2 \<and>
   outcome (computeRemainingMakerFillable thirdsBackend thirdsOrder ''0xhash'') =
     Inr (Finite (66666666666666666667 / 1000000000000000000)) \<and>
   Finite (66666666666666666667 / 1000000000000000000) \<noteq>
     Finite (min (200 / 300 * 100) (100 - 2))"
proof -
  have "outcome (computeRemainingMakerFillable thirdsBackend thirdsOrder ''0xhash'') =
     Inr (Finite (66666666666666666667 / 1000000000000000000))"
    by (subst computeRemainingMakerFillable_passed [OF hasMakerSufficientFundsForFee_fixtures(4)])
      (simp add: thirdsBackend_def thirdsOrder_def testBackend_def testOrder_def
        calculateNeededCollateral_Finite round_half_up_def DECIMAL_PLACES_def floor_rat_numeral
        BigNumber_min_Finite minus_def)
  then show ?thesis
    using hasMakerSufficientFundsForFee_fixtures(4)
    by (simp add: thirdsBackend_def thirdsOrder_def testBackend_def testOrder_def
        calculateNeededCollateral_Finite)
qed

text \<open>
  Claim C4, amended. When the maker passes the fee sub-check, \<open>computeRemainingMakerFillable\<close>
  returns the minimum of \<open>(availableCollateral / neededCollateral) * orderQty\<close> and
  \<open>orderQty - alreadyFilledOrCancelled\<close>, in the library's operations: the quotient is
  the one \<^verbatim>\<open>dividedBy\<close> computes, rounded half up to \<open>DECIMAL_PLACES\<close> places. For a buy
  order with positive needed collateral and finite balances the second conjunct spells
  the result out on the rationals, and the third says that it is the minimum of the
  claim whenever the quotient has no more than \<open>DECIMAL_PLACES\<close> places. The witness is
  the scenario of the specification: quantity 100, 2 filled, collateral for half the
  order, result 50.
\<close>

theorem maker_fillable_buy:
  assumes fee: "outcome (hasMakerSufficientFundsForFee be so) = Inr True"
  shows "outcome (computeRemainingMakerFillable be so h) =
           Inr (BigNumber_min
                  (times (dividedBy (getUserAccountBalance be (contractAddress so) (maker so))
                            (calculateNeededCollateral (PRICE_FLOOR be (contractAddress so))
                               (PRICE_CAP be (contractAddress so))
                               (QTY_MULTIPLIER be (contractAddress so))
                               (orderQty so) (price so)))
                     (orderQty so))
                  (minus (orderQty so)
                     (getQtyFilledOrCancelledFromOrder be (contractAddress so) h))) \<and>
         (orderQty so = Finite q \<and> 0 < q \<and>
          calculateNeededCollateral (PRICE_FLOOR be (contractAddress so))
            (PRICE_CAP be (contractAddress so)) (QTY_MULTIPLIER be (contractAddress so))
            (orderQty so) (price so) = Finite n \<and> 0 < n \<and>
          getUserAccountBalance be (contractAddress so) (maker so) = Finite a \<and>
          getQtyFilledOrCancelledFromOrder be (contractAddress so) h = Finite f \<longrightarrow>
          outcome (computeRemainingMakerFillable be so h) =
            Inr (Finite (min (round_half_up DECIMAL_PLACES (a / n) * q) (q - f)))) \<and>
         (orderQty so = Finite q \<and> 0 < q \<and>
          calculateNeededCollateral (PRICE_FLOOR be (contractAddress so))
            (PRICE_CAP be (contractAddress so)) (QTY_MULTIPLIER be (contractAddress so))
            (orderQty so) (price so) = Finite n \<and> 0 < n \<and>
          getUserAccountBalance be (contractAddress so) (maker so) = Finite a \<and>
          getQtyFilledOrCancelledFromOrder be (contractAddress so) h = Finite f \<and>
          a / n * 10 ^ DECIMAL_PLACES \<in> \<int> \<longrightarrow>
          outcome (computeRemainingMakerFillable be so h) =
            Inr (Finite (min (a / n * q) (q - f))))"
proof -
  note run = computeRemainingMakerFillable_passed [OF fee, of h]
  have rounded: "outcome (computeRemainingMakerFillable be so h) =
            Inr (Finite (min (round_half_up DECIMAL_PLACES (a / n) * q) (q - f)))"
    if "orderQty so = Finite q" "0 < q"
      "calculateNeededCollateral (PRICE_FLOOR be (contractAddress so))
            (PRICE_CAP be (contractAddress so)) (QTY_MULTIPLIER be (contractAddress so))
            (orderQty so) (price so) = Finite n" "0 < n"
      "getUserAccountBalance be (contractAddress so) (maker so) = Finite a"
      "getQtyFilledOrCancelledFromOrder be (contractAddress so) h = Finite f"
    unfolding run using that by (simp add: BigNumber_min_Finite minus_def)
  have exact: "outcome (computeRemainingMakerFillable be so h) =
            Inr (Finite (min (a / n * q) (q - f)))"
    if "orderQty so = Finite q" "0 < q"
      "calculateNeededCollateral (PRICE_FLOOR be (contractAddress so))
            (PRICE_CAP be (contractAddress so)) (QTY_MULTIPLIER be (contractAddress so))
            (orderQty so) (price so) = Finite n" "0 < n"
      "getUserAccountBalance be (contractAddress so) (maker so) = Finite a"
      "getQtyFilledOrCancelledFromOrder be (contractAddress so) h = Finite f"
      "a / n * 10 ^ DECIMAL_PLACES \<in> \<int>"
    using rounded [OF that(1-6)] round_half_up_exact [OF that(7)] by simp
  from run rounded exact show ?thesis by blast
qed

theorem maker_fillable_buy_witness:
  "outcome (hasMakerSufficientFundsForFee testBackend testOrder) = Inr True \<and>
   orderQty testOrder = Finite 100 \<and>
   getQtyFilledOrCancelledFromOrder testBackend (contractAddress testOrder) ''0xhash'' = Finite 2 \<and>
   getUserAccountBalance testBackend (contractAddress testOrder) (maker testOrder) =
     Finite 2500000 \<and>
   calculateNeededCollateral (PRICE_FLOOR testBackend (contractAddress testOrder))
     (PRICE_CAP testBackend (contractAddress testOrder))
     (QTY_MULTIPLIER testBackend (contractAddress testOrder))
     (orderQty testOrder) (price testOrder) = Finite 5000000 \<and>
   times (dividedBy (Finite 2500000) (Finite 5000000)) (Finite 100) = Finite 50 \<and>
   (2500000 / 5000000 * 10 ^ DECIMAL_PLACES :: rat) \<in> \<int> \<and>
   outcome (computeRemainingMakerFillable testBackend testOrder ''0xhash'') = Inr (Finite 50)"
proof -
  note fee = hasMakerSufficientFundsForFee_fixtures(1)
  have qty: "orderQty testOrder = Finite 100" "(0::rat) < 100"
    by (simp_all add: testOrder_def)
  have needed: "calculateNeededCollateral (PRICE_FLOOR testBackend (contractAddress testOrder))
                   (PRICE_CAP testBackend (contractAddress testOrder))
                   (QTY_MULTIPLIER testBackend (contractAddress testOrder))
                   (orderQty testOrder) (price testOrder) = Finite 5000000" "(0::rat) < 5000000"
    by (simp_all add: testBackend_def testOrder_def calculateNeededCollateral_Finite)
  have avail: "getUserAccountBalance testBackend (contractAddress testOrder) (maker testOrder) =
      Finite 2500000"
    by (simp add: testBackend_def)
  have filled: "getQtyFilledOrCancelledFromOrder testBackend (contractAddress testOrder)
      ''0xhash'' = Finite 2"
    by (simp add: testBackend_def)
  have places: "(2500000 / 5000000 * 10 ^ DECIMAL_PLACES :: rat) \<in> \<int>"
  proof -
    have "(2500000 / 5000000 * 10 ^ DECIMAL_PLACES :: rat) = of_int 50000000000000000000"
      by (simp add: DECIMAL_PLACES_def)
    then show ?thesis by (simp only: Ints_of_int)
  qed
  have "outcome (computeRemainingMakerFillable testBackend testOrder ''0xhash'') =
      Inr (Finite (min (2500000 / 5000000 * 100) (100 - 2)))"
    using maker_fillable_buy [OF fee, of "''0xhash''" 100 5000000 2500000 2]
      qty needed avail filled places
    by blast
  then have "outcome (computeRemainingMakerFillable testBackend testOrder ''0xhash'') =
      Inr (Finite 50)"
    by simp
  moreover have "times (dividedBy (Finite 2500000) (Finite 5000000)) (Finite 100) = Finite 50"
    by (simp add: round_half_up_def DECIMAL_PLACES_def floor_rat_numeral)
  ultimately show ?thesis using fee qty filled avail needed places by simp
qed

text \<open>
  Claim C10. The divisor is not guarded: for a buy order priced at or below the floor
  the needed collateral is zero, and when the maker passes the fee sub-check and has no
  collateral, \<open>computeRemainingMakerFillable\<close> resolves with NaN.
\<close>

theorem maker_fillable_zero_divisor:
  assumes fee: "outcome (hasMakerSufficientFundsForFee be so) = Inr True"
    and buy: "orderQty so = Finite q" "0 < q"
    and atFloor: "price so = Finite p" "PRICE_FLOOR be (contractAddress so) = Finite pf" "p \<le> pf"
    and mult: "QTY_MULTIPLIER be (contractAddress so) = Finite m"
    and avail: "getUserAccountBalance be (contractAddress so) (maker so) = Finite 0"
  shows "calculateNeededCollateral (PRICE_FLOOR be (contractAddress so))
           (PRICE_CAP be (contractAddress so)) (QTY_MULTIPLIER be (contractAddress so))
           (orderQty so) (price so) = Finite 0 \<and>
         outcome (computeRemainingMakerFillable be so h) = Inr NaN"
  using buy atFloor mult avail
  by (simp add: computeRemainingMakerFillable_passed [OF fee] BigNumber_min_NaN
      calculateNeededCollateral_def lte_def)

theorem maker_fillable_zero_divisor_witness:
  "outcome (hasMakerSufficientFundsForFee emptyPoolBackend atFloorOrder) = Inr True \<and>
   outcome (computeRemainingMakerFillable emptyPoolBackend atFloorOrder ''0xhash'') = Inr NaN"
proof -
  note fee = hasMakerSufficientFundsForFee_fixtures(2)
  show ?thesis
    using fee maker_fillable_zero_divisor [OF fee, of 100 50000 50000 1 "''0xhash''"]
    by (simp add: emptyPoolBackend_def atFloorOrder_def testBackend_def testOrder_def)
qed

text \<open>
  Claim C7. For an order whose taker is the null address,
  \<open>computeRemainingTakerFillable\<close> ends as \<open>computeRemainingMakerFillable\<close> does, with the
  same value or the same failure, and makes the same calls: no read is added for the
  taker. Every call it makes is one of the eight calls of the maker's computation: the
  node's accounts, asked for by the assertion of the maker's allowance read, the maker's
  allowance and balance of the fee token, the maker's collateral, the three terms of the
  contract and the filled quantity of the order.
\<close>

theorem open_taker_fillable:
  assumes "taker so = NULL_ADDRESS"
  shows "outcome (computeRemainingTakerFillable be so h) =
           outcome (computeRemainingMakerFillable be so h) \<and>
         calls (computeRemainingTakerFillable be so h) =
           calls (computeRemainingMakerFillable be so h) \<and>
         set (calls (computeRemainingTakerFillable be so h)) \<subseteq>
           {Read_getAccounts,
            Read_allowance (toLowerCase (mktTokenContract_address be)) (maker so)
              (feeRecipient so),
            Read_balanceOf (toLowerCase (mktTokenContract_address be)) (maker so),
            Read_getUserAccountBalance (contractAddress so) (maker so),
            Read_PRICE_FLOOR (contractAddress so), Read_PRICE_CAP (contractAddress so),
            Read_QTY_MULTIPLIER (contractAddress so),
            Read_getQtyFilledOrCancelledFromOrder (contractAddress so) h}"
proof -
  have "computeRemainingTakerFillable be so h tr = computeRemainingMakerFillable be so h tr" for tr
    using assms
    by (cases "computeRemainingMakerFillable be so h tr")
      (auto simp: computeRemainingTakerFillable_def await_def resolve_def split: sum.splits)
  then have "computeRemainingTakerFillable be so h = computeRemainingMakerFillable be so h"
    by (rule ext)
  then show ?thesis
    by (simp add: outcome_def calls_def computeRemainingMakerFillable_run Let_def)
qed

theorem open_taker_fillable_witness:
  "taker testOrder = NULL_ADDRESS \<and>
   outcome (computeRemainingTakerFillable testBackend testOrder ''0xhash'') = Inr (Finite 50) \<and>
   calls (computeRemainingTakerFillable testBackend testOrder ''0xhash'') =
     [Read_getAccounts,
      Read_allowance (toLowerCase (mktTokenContract_address testBackend)) testMaker
        testFeeRecipient,
      Read_balanceOf (toLowerCase (mktTokenContract_address testBackend)) testMaker,
      Read_getUserAccountBalance testContract testMaker,
      Read_PRICE_FLOOR testContract, Read_PRICE_CAP testContract,
      Read_QTY_MULTIPLIER testContract,
      Read_getQtyFilledOrCancelledFromOrder testContract ''0xhash'']"
proof -
  have t: "taker testOrder = NULL_ADDRESS" by (simp add: testOrder_def)
  have o: "outcome (computeRemainingMakerFillable testBackend testOrder ''0xhash'') =
          Inr (Finite 50)"
    by (subst computeRemainingMakerFillable_passed [OF hasMakerSufficientFundsForFee_fixtures(1)])
      (simp add: testBackend_def testOrder_def calculateNeededCollateral_Finite
        round_half_up_def DECIMAL_PLACES_def floor_rat_numeral BigNumber_min_Finite minus_def)
  have c: "calls (computeRemainingMakerFillable testBackend testOrder ''0xhash'') =
     [Read_getAccounts,
      Read_allowance (toLowerCase (mktTokenContract_address testBackend)) testMaker
        testFeeRecipient,
      Read_balanceOf (toLowerCase (mktTokenContract_address testBackend)) testMaker,
      Read_getUserAccountBalance testContract testMaker,
      Read_PRICE_FLOOR testContract, Read_PRICE_CAP testContract,
      Read_QTY_MULTIPLIER testContract,
      Read_getQtyFilledOrCancelledFromOrder testContract ''0xhash'']"
    using feeReadsAccepted_testBackend(1)
    by (simp add: calls_def computeRemainingMakerFillable_run Let_def feeReadsAccepted_def
        testOrder_def gte_def isGreaterThan_def)
      (simp add: testBackend_def)
  from t o c open_taker_fillable [OF t, of testBackend "''0xhash''"] show ?thesis by simp
qed

text \<open>
  On a buy order with non-negative collateral and fills within the order, the fillable
  quantity stays within \<open>\<bar>orderQty\<bar> - \<bar>alreadyFilledOrCancelled\<bar>\<close>.
\<close>

lemma buy_order_fillable_within_remaining:
  assumes fee: "outcome (hasMakerSufficientFundsForFee be so) = Inr True"
    and buy: "orderQty so = Finite q" "0 < q"
    and needed: "calculateNeededCollateral (PRICE_FLOOR be (contractAddress so))
                   (PRICE_CAP be (contractAddress so)) (QTY_MULTIPLIER be (contractAddress so))
                   (orderQty so) (price so) = Finite n" "0 < n"
    and avail: "getUserAccountBalance be (contractAddress so) (maker so) = Finite a" "0 \<le> a"
    and filled: "getQtyFilledOrCancelledFromOrder be (contractAddress so) h = Finite f"
      "0 \<le> f" "f \<le> q"
  shows "\<exists>r. outcome (computeRemainingMakerFillable be so h) = Inr (Finite r) \<and>
             \<bar>r\<bar> \<le> \<bar>q\<bar> - \<bar>f\<bar>"
proof -
  let ?r = "min (round_half_up DECIMAL_PLACES (a / n) * q) (q - f)"
  have "outcome (computeRemainingMakerFillable be so h) = Inr (Finite ?r)"
    using buy needed avail(1) filled(1)
    by (simp add: computeRemainingMakerFillable_passed [OF fee] BigNumber_min_Finite minus_def)
  moreover have "0 \<le> round_half_up DECIMAL_PLACES (a / n) * q"
    using round_half_up_nonneg [of "a / n" DECIMAL_PLACES] avail(2) needed(2) buy(2) by simp
  then have "\<bar>?r\<bar> \<le> \<bar>q\<bar> - \<bar>f\<bar>"
    using filled(2,3) buy(2) by (simp add: min_def)
  ultimately show ?thesis by blast
qed

text \<open>
  Claim C3, at a sell order. The quantities of a sell order are negative, and
  \<^verbatim>\<open>BigNumber.min\<close> of two negative numbers is the one of larger magnitude: with
  quantity -100, -2 filled and collateral for ten times the order the result is -1000,
  whose magnitude exceeds \<open>100 - 2\<close>.
\<close>

theorem sell_order_fillable_exceeds_remaining:
  "outcome (computeRemainingMakerFillable sellBackend sellOrder ''0xhash'') =
     Inr (Finite (- 1000)) \<and>
   absoluteValue (orderQty sellOrder) = Finite 100 \<and>
   absoluteValue (getQtyFilledOrCancelledFromOrder sellBackend (contractAddress sellOrder)
     ''0xhash'') = Finite 2 \<and>
   isGreaterThan (absoluteValue (Finite (- 1000)))
     (minus (Finite 100) (Finite 2))"
  by (subst computeRemainingMakerFillable_passed [OF hasMakerSufficientFundsForFee_fixtures(3)])
    (simp add: sellBackend_def sellOrder_def testBackend_def testOrder_def isGreaterThan_def
      calculateNeededCollateral_Finite round_half_up_def DECIMAL_PLACES_def
      floor_rat_numeral BigNumber_min_def minus_def)

section \<open>The trade precondition pipeline\<close>

text \<open>What \<open>firstViolation\<close> selects: the error of the violated check that no violated check precedes.\<close>

lemma firstViolation_Some_iff:
  "firstViolation checks = Some e \<longleftrightarrow>
     (\<exists>i < length checks. fst (checks ! i) \<and> snd (checks ! i) = e \<and>
        (\<forall>j < i. \<not> fst (checks ! j)))"
proof -
  have "(\<exists>x. find fst checks = Some x \<and> snd x = e) \<longleftrightarrow>
     (\<exists>i < length checks. fst (checks ! i) \<and> snd (checks ! i) = e \<and>
        (\<forall>j < i. \<not> fst (checks ! j)))"
    unfolding find_Some_iff by blast
  then show ?thesis
    by (simp add: firstViolation_def)
qed

lemma firstViolation_None_iff:
  "firstViolation checks = None \<longleftrightarrow> (\<forall>c \<in> set checks. \<not> fst c)"
  by (auto simp: firstViolation_def find_None_iff)

text \<open>
  \<open>firstViolationIndex\<close> is the position of the check that \<open>firstViolation\<close> selects, and
  the length of the sequence when there is none.
\<close>

lemma firstViolationIndex_Some:
  assumes "firstViolation checks = Some e"
  shows "firstViolationIndex checks < length checks \<and>
         checks ! firstViolationIndex checks = (True, e) \<and>
         (\<forall>j < firstViolationIndex checks. \<not> fst (checks ! j))"
  using assms
proof (induction checks)
  case Nil
  then show ?case by (simp add: firstViolation_def)
next
  case (Cons c checks)
  show ?case
  proof (cases "fst c")
    case True
    with Cons.prems show ?thesis
      by (cases c) (simp add: firstViolation_def firstViolationIndex_def)
  next
    case False
    with Cons.prems have "firstViolation checks = Some e"
      by (simp add: firstViolation_def)
    from Cons.IH [OF this] False show ?thesis
      by (auto simp: firstViolationIndex_def less_Suc_eq_0_disj)
  qed
qed

lemma firstViolationIndex_None:
  "firstViolation checks = None \<Longrightarrow> firstViolationIndex checks = length checks"
  by (induction checks) (auto simp: firstViolation_def firstViolationIndex_def split: if_splits)

text \<open>
  The outcome of the two wrappers on every input: the plain error of an assertion that
  fails before the earliest violated check is reached, else the error of the earliest
  violated check, else the transaction metadata.
\<close>

lemma tradeOrderAsync_outcome:
  "outcome (tradeOrderAsync be lib so fq tx) =
     (let checks = tradeOrderChecks be lib (toLowerCase (mktTokenContract_address be))
                     (getOrderHash be so) so fq tx
      in
      if \<not> assertionsBefore be so tx (firstViolationIndex checks) then Inl AssertionFailure
      else
        (case firstViolation checks of
           Some e \<Rightarrow> Inl (MarketFailure e)
         | None \<Rightarrow> Inr (OrderTransactionInfo (contractAddress so) so
                        (tradeOrderTx be so fq tx) None)))"
  by (simp add: outcome_def tradeOrderAsync_def wrapper_defs run_defs Let_def
      firstViolation_def firstViolationIndex_def assertionsBefore_def tradeOrderChecks_def)

lemma tradeOrderAsync_MarketProtocol_outcome:
  "outcome (tradeOrderAsync_MarketProtocol be lib so fq tx) =
     (if \<not> isETHAddressHex lib then Inl AssertionFailure
      else
        (case firstViolation (tradeOrderChecks be lib (mktTokenContract_address be)
                (createOrderHashAsync be lib so) so fq tx) of
           Some e \<Rightarrow> Inl (MarketFailure e)
         | None \<Rightarrow> Inr (OrderTransactionInfo (contractAddress so) so (tradeOrderTx be so fq tx)
                     (Some (getTransaction_blockNumber be (tradeOrderTx be so fq tx))))))"
  by (simp add: outcome_def tradeOrderAsync_MarketProtocol_def wrapper_defs run_defs
      Let_def firstViolation_def tradeOrderChecks_def)

text \<open>The submissions of a trade, and what a resolved trade has passed.\<close>

lemma tradeOrderAsync_submissions:
  "submissions (tradeOrderAsync be lib so fq tx) =
     (case outcome (tradeOrderAsync be lib so fq tx) of
        Inl e \<Rightarrow> []
      | Inr info \<Rightarrow> [Send_tradeOrderTx so fq tx])"
  by (simp add: submissions_def calls_def outcome_def tradeOrderAsync_def wrapper_defs run_defs
      Let_def)

lemma tradeOrderAsync_MarketProtocol_submissions:
  "submissions (tradeOrderAsync_MarketProtocol be lib so fq tx) =
     (case outcome (tradeOrderAsync_MarketProtocol be lib so fq tx) of
        Inl e \<Rightarrow> []
      | Inr info \<Rightarrow> [Send_tradeOrderTx so fq tx])"
  by (simp add: submissions_def calls_def outcome_def tradeOrderAsync_MarketProtocol_def
      wrapper_defs run_defs Let_def)

lemma tradeOrderAsync_resolved_iff:
  "(\<exists>info. outcome (tradeOrderAsync be lib so fq tx) = Inr info) \<longleftrightarrow>
     firstViolation (tradeOrderChecks be lib (toLowerCase (mktTokenContract_address be))
       (getOrderHash be so) so fq tx) = None \<and>
     assertionsBefore be so tx 13"
proof -
  have len: "length (tradeOrderChecks be lib (toLowerCase (mktTokenContract_address be))
       (getOrderHash be so) so fq tx) = 13"
    by (simp add: tradeOrderChecks_def Let_def)
  have below: "assertionsBefore be so tx 13 \<Longrightarrow> assertionsBefore be so tx i" for i
    by (simp add: assertionsBefore_def)
  show ?thesis
    using firstViolationIndex_None [of "tradeOrderChecks be lib
        (toLowerCase (mktTokenContract_address be)) (getOrderHash be so) so fq tx"] len below
    by (auto simp: tradeOrderAsync_outcome Let_def split: option.splits if_splits)
qed

lemma tradeOrderAsync_MarketProtocol_resolved_iff:
  "(\<exists>info. outcome (tradeOrderAsync_MarketProtocol be lib so fq tx) = Inr info) \<longleftrightarrow>
     firstViolation (tradeOrderChecks be lib (mktTokenContract_address be)
       (createOrderHashAsync be lib so) so fq tx) = None \<and>
     isETHAddressHex lib"
  by (auto simp: tradeOrderAsync_MarketProtocol_outcome split: option.splits if_splits)

lemma tradeOrderAsync_last_call:
  assumes "outcome (tradeOrderAsync be lib so fq tx) = Inr info"
  shows "last (calls (tradeOrderAsync be lib so fq tx)) = Send_tradeOrderTx so fq tx"
  using assms
  by (simp add: calls_def outcome_def tradeOrderAsync_def wrapper_defs run_defs
      Let_def split: if_splits)

lemma tradeOrderAsync_MarketProtocol_last_calls:
  assumes "outcome (tradeOrderAsync_MarketProtocol be lib so fq tx) = Inr info"
  shows "\<exists>reads. calls (tradeOrderAsync_MarketProtocol be lib so fq tx) =
           reads @ [Send_tradeOrderTx so fq tx, Read_getTransaction (tradeOrderTx be so fq tx)]"
  using assms
  by (simp add: calls_def outcome_def tradeOrderAsync_MarketProtocol_def wrapper_defs run_defs
      Let_def split: if_splits)

lemma tradeOrderAsync_submits_after_all_checks:
  "(case outcome (tradeOrderAsync be lib so fq tx) of
      Inl e \<Rightarrow> submissions (tradeOrderAsync be lib so fq tx) = []
    | Inr info \<Rightarrow>
        firstViolation (tradeOrderChecks be lib (toLowerCase (mktTokenContract_address be))
          (getOrderHash be so) so fq tx) = None \<and>
        submissions (tradeOrderAsync be lib so fq tx) = [Send_tradeOrderTx so fq tx] \<and>
        last (calls (tradeOrderAsync be lib so fq tx)) = Send_tradeOrderTx so fq tx \<and>
        info = OrderTransactionInfo (contractAddress so) so (tradeOrderTx be so fq tx) None)"
proof (cases "outcome (tradeOrderAsync be lib so fq tx)")
  case (Inl e)
  then show ?thesis
    using tradeOrderAsync_submissions [of be lib so fq tx] by simp
next
  case (Inr info)
  then have "firstViolation (tradeOrderChecks be lib (toLowerCase (mktTokenContract_address be))
          (getOrderHash be so) so fq tx) = None"
    using tradeOrderAsync_resolved_iff [of be lib so fq tx] by blast
  moreover from this Inr
  have "info = OrderTransactionInfo (contractAddress so) so (tradeOrderTx be so fq tx) None"
    by (simp add: tradeOrderAsync_outcome Let_def split: if_splits)
  ultimately show ?thesis
    using Inr tradeOrderAsync_submissions [of be lib so fq tx] tradeOrderAsync_last_call [OF Inr]
    by simp
qed

lemma tradeOrderAsync_MarketProtocol_submits_after_all_checks:
  "(case outcome (tradeOrderAsync_MarketProtocol be lib so fq tx) of
      Inl e \<Rightarrow> submissions (tradeOrderAsync_MarketProtocol be lib so fq tx) = []
    | Inr info \<Rightarrow>
        firstViolation (tradeOrderChecks be lib (mktTokenContract_address be)
          (createOrderHashAsync be lib so) so fq tx) = None \<and>
        submissions (tradeOrderAsync_MarketProtocol be lib so fq tx) =
          [Send_tradeOrderTx so fq tx] \<and>
        (\<exists>reads. calls (tradeOrderAsync_MarketProtocol be lib so fq tx) =
           reads @ [Send_tradeOrderTx so fq tx,
                    Read_getTransaction (tradeOrderTx be so fq tx)]) \<and>
        info = OrderTransactionInfo (contractAddress so) so (tradeOrderTx be so fq tx)
                 (Some (getTransaction_blockNumber be (tradeOrderTx be so fq tx))))"
proof (cases "outcome (tradeOrderAsync_MarketProtocol be lib so fq tx)")
  case (Inl e)
  then show ?thesis
    using tradeOrderAsync_MarketProtocol_submissions [of be lib so fq tx] by simp
next
  case (Inr info)
  then have "firstViolation (tradeOrderChecks be lib (mktTokenContract_address be)
          (createOrderHashAsync be lib so) so fq tx) = None"
    using tradeOrderAsync_MarketProtocol_resolved_iff [of be lib so fq tx] by blast
  moreover from this Inr
  have "info = OrderTransactionInfo (contractAddress so) so (tradeOrderTx be so fq tx)
                 (Some (getTransaction_blockNumber be (tradeOrderTx be so fq tx)))"
    by (simp add: tradeOrderAsync_MarketProtocol_outcome split: if_splits)
  ultimately show ?thesis
    using Inr tradeOrderAsync_MarketProtocol_submissions [of be lib so fq tx]
      tradeOrderAsync_MarketProtocol_last_calls [OF Inr]
    by simp
qed

text \<open>The fixtures at the trade: assertions and checks.\<close>

lemma assertionsBefore_fixtures:
  "assertionsBefore testBackend testOrder testTxParams i"
  "assertionsBefore noFeeFundsBackend testOrder testTxParams i"
  "assertionsBefore remoteMakerBackend expiredOrder testTxParams 2"
  "\<not> assertionsBefore remoteMakerBackend expiredOrder testTxParams 8"
  "\<not> assertionsBefore remoteMakerBackend testOrder testTxParams 9"
  using isETHAddressHex_fixtures fixture_accounts
  by (simp_all add: assertionsBefore_def effectiveTaker_def testTxParams_def testOrder_def
      expiredOrder_def noFeeFundsBackend_def remoteMakerBackend_def)
    (simp_all add: testBackend_def)

lemma checks_pass_fixture:
  "firstViolation (tradeOrderChecks testBackend testOrderLib tok hash testOrder (Finite 2)
     testTxParams) = None"
  by (simp add: firstViolation_def tradeOrderChecks_def Let_def testBackend_def testOrder_def
      testTxParams_def effectiveTaker_def calculateNeededCollateral_Finite)

lemma checks_mismatch_fixture:
  "firstViolation (tradeOrderChecks testBackend testOrderLib tok hash testOrder (Finite (- 2))
     testTxParams) = Some BuySellMismatch"
  "firstViolationIndex (tradeOrderChecks testBackend testOrderLib tok hash testOrder
     (Finite (- 2)) testTxParams) = 4"
  by (simp_all add: firstViolation_def firstViolationIndex_def tradeOrderChecks_def Let_def
      testBackend_def testOrder_def testTxParams_def effectiveTaker_def)

text \<open>
  Claim C2, as stated, on a node that does not hold the maker's account. The taker has
  no fee token and nobody has collateral, so the earliest violated check is the taker's
  fee balance; but the read of the maker's allowance comes first, and
  \<^verbatim>\<open>getAllowanceAsync\<close> asserts that the owner is an account of the node: the trade ends
  with the assertion's error, not with a \<^verbatim>\<open>MarketError\<close>.
\<close>

theorem trade_order_assertion_precedes_checks:
  "firstViolation (tradeOrderChecks remoteMakerBackend testOrderLib
     (toLowerCase (mktTokenContract_address remoteMakerBackend))
     (getOrderHash remoteMakerBackend testOrder) testOrder (Finite 2) testTxParams) =
     Some InsufficientBalanceForTransfer \<and>
   outcome (tradeOrderAsync remoteMakerBackend testOrderLib testOrder (Finite 2) testTxParams) =
     Inl AssertionFailure"
proof -
  have v: "firstViolation (tradeOrderChecks remoteMakerBackend testOrderLib
     (toLowerCase (mktTokenContract_address remoteMakerBackend))
     (getOrderHash remoteMakerBackend testOrder) testOrder (Finite 2) testTxParams) =
     Some InsufficientBalanceForTransfer"
    "firstViolationIndex (tradeOrderChecks remoteMakerBackend testOrderLib
     (toLowerCase (mktTokenContract_address remoteMakerBackend))
     (getOrderHash remoteMakerBackend testOrder) testOrder (Finite 2) testTxParams) = 9"
    using fixture_accounts
    by (simp_all add: firstViolation_def firstViolationIndex_def tradeOrderChecks_def Let_def
        remoteMakerBackend_def testBackend_def testOrder_def testTxParams_def effectiveTaker_def)
  then show ?thesis
    using assertionsBefore_fixtures(5)
    by (simp add: tradeOrderAsync_outcome Let_def)
qed

text \<open>
  Claim C2, amended. \<open>tradeOrderAsync\<close> evaluates the checks in the order of section 4.4
  (settlement, taker identity, expiration, remaining quantity, buy/sell sign, signature,
  enablement, fee funds of maker and taker, collateral of maker and taker) and rejects
  with the error of the earliest violated check, unless an assertion that it evaluates
  before it comes to that check fails; then it ends with the plain error of the
  assertion. When no check is violated and no assertion fails it resolves with the
  transaction metadata. The first two conjuncts give the outcome on every input, for the
  \<^verbatim>\<open>ContractWrapper\<close> and for the \<^verbatim>\<open>MarketProtocolContractWrapper\<close>, whose only assertion
  is the format of the order library's address; the last two spell out, for the
  \<^verbatim>\<open>ContractWrapper\<close>, that the error of the earliest violated check is reported when the
  assertions before it pass, and that no other \<^verbatim>\<open>MarketError\<close> is ever reported. The
  witness is a trade on a node without the maker's account, of an order that is
  expired, filled on the wrong side and short of fee funds and collateral: the expiry
  is reported, since the assertion on the maker's account comes later.
\<close>

theorem trade_order_reports_earliest_violation:
  "outcome (tradeOrderAsync be lib so fq tx) =
     (let checks = tradeOrderChecks be lib (toLowerCase (mktTokenContract_address be))
                     (getOrderHash be so) so fq tx
      in
      if \<not> assertionsBefore be so tx (firstViolationIndex checks) then Inl AssertionFailure
      else
        (case firstViolation checks of
           Some e \<Rightarrow> Inl (MarketFailure e)
         | None \<Rightarrow> Inr (OrderTransactionInfo (contractAddress so) so
                        (tradeOrderTx be so fq tx) None))) \<and>
   outcome (tradeOrderAsync_MarketProtocol be lib so fq tx) =
     (if \<not> isETHAddressHex lib then Inl AssertionFailure
      else
        (case firstViolation (tradeOrderChecks be lib (mktTokenContract_address be)
                (createOrderHashAsync be lib so) so fq tx) of
           Some e \<Rightarrow> Inl (MarketFailure e)
         | None \<Rightarrow> Inr (OrderTransactionInfo (contractAddress so) so (tradeOrderTx be so fq tx)
                     (Some (getTransaction_blockNumber be (tradeOrderTx be so fq tx)))))) \<and>
   (firstViolation (tradeOrderChecks be lib (toLowerCase (mktTokenContract_address be))
      (getOrderHash be so) so fq tx) = Some e \<and>
    assertionsBefore be so tx
      (firstViolationIndex (tradeOrderChecks be lib (toLowerCase (mktTokenContract_address be))
         (getOrderHash be so) so fq tx)) \<longrightarrow>
    outcome (tradeOrderAsync be lib so fq tx) = Inl (MarketFailure e)) \<and>
   (outcome (tradeOrderAsync be lib so fq tx) = Inl (MarketFailure e) \<longrightarrow>
    firstViolation (tradeOrderChecks be lib (toLowerCase (mktTokenContract_address be))
      (getOrderHash be so) so fq tx) = Some e)"
  by (simp add: tradeOrderAsync_outcome tradeOrderAsync_MarketProtocol_outcome Let_def
      split: option.splits)

theorem trade_order_reports_earliest_violation_witness:
  "map fst (tradeOrderChecks remoteMakerBackend testOrderLib
     (toLowerCase (mktTokenContract_address remoteMakerBackend))
     (getOrderHash remoteMakerBackend expiredOrder) expiredOrder (Finite (- 100))
     testTxParams) =
     [False, False, True, False, True, False, False, False, False, True, False, True, True] \<and>
   firstViolationIndex (tradeOrderChecks remoteMakerBackend testOrderLib
     (toLowerCase (mktTokenContract_address remoteMakerBackend))
     (getOrderHash remoteMakerBackend expiredOrder) expiredOrder (Finite (- 100))
     testTxParams) = 2 \<and>
   assertionsBefore remoteMakerBackend expiredOrder testTxParams 2 \<and>
   \<not> assertionsBefore remoteMakerBackend expiredOrder testTxParams 8 \<and>
   isETHAddressHex testOrderLib \<and>
   outcome (tradeOrderAsync remoteMakerBackend testOrderLib expiredOrder (Finite (- 100))
     testTxParams) = Inl (MarketFailure OrderExpired) \<and>
   outcome (tradeOrderAsync_MarketProtocol remoteMakerBackend testOrderLib expiredOrder
     (Finite (- 100)) testTxParams) = Inl (MarketFailure OrderExpired)"
proof -
  have c: "map fst (tradeOrderChecks remoteMakerBackend testOrderLib
     (toLowerCase (mktTokenContract_address remoteMakerBackend))
     (getOrderHash remoteMakerBackend expiredOrder) expiredOrder (Finite (- 100))
     testTxParams) =
     [False, False, True, False, True, False, False, False, False, True, False, True, True]"
    using fixture_accounts
    by (simp add: tradeOrderChecks_def Let_def remoteMakerBackend_def testBackend_def
        expiredOrder_def testOrder_def testTxParams_def effectiveTaker_def
        calculateNeededCollateral_Finite)
  have f: "firstViolation (tradeOrderChecks remoteMakerBackend testOrderLib tok h
     expiredOrder (Finite (- 100)) testTxParams) = Some OrderExpired"
    "firstViolationIndex (tradeOrderChecks remoteMakerBackend testOrderLib tok h
     expiredOrder (Finite (- 100)) testTxParams) = 2" for tok h
    by (simp_all add: firstViolation_def firstViolationIndex_def tradeOrderChecks_def Let_def
        remoteMakerBackend_def testBackend_def expiredOrder_def testOrder_def testTxParams_def
        effectiveTaker_def)
  note a = assertionsBefore_fixtures(3,4)
  note l = isETHAddressHex_fixtures(4)
  from c a l
    trade_order_reports_earliest_violation
      [of remoteMakerBackend testOrderLib expiredOrder "Finite (- 100)" testTxParams OrderExpired]
  show ?thesis by (simp add: f)
qed

text \<open>
  Claim C6, as stated, at the metadata of the \<^verbatim>\<open>ContractWrapper\<close>. On the fixture every
  check passes and the fill is submitted; the metadata returned holds the market
  contract, the echoed order and the transaction hash, and no block number:
  \<^verbatim>\<open>ContractWrapper.tradeOrderAsync\<close> does not look one up and passes none to
  \<^verbatim>\<open>OrderTransactionInfo\<close>.
\<close>

theorem trade_order_metadata_without_block_number:
  "firstViolation (tradeOrderChecks testBackend testOrderLib
     (toLowerCase (mktTokenContract_address testBackend)) (getOrderHash testBackend testOrder)
     testOrder (Finite 2) testTxParams) = None \<and>
   outcome (tradeOrderAsync testBackend testOrderLib testOrder (Finite 2) testTxParams) =
     Inr (OrderTransactionInfo testContract testOrder ''0xtx'' None) \<and>
   info_blockNumber (OrderTransactionInfo testContract testOrder ''0xtx'' None) = None \<and>
   calls (tradeOrderAsync testBackend testOrderLib testOrder (Finite 2) testTxParams) =
     [Read_isSettled testContract,
      Read_isValidSignature testOrderLib ''0xhash'',
      Read_isUserEnabledForContract testContract testMaker,
      Read_isUserEnabledForContract testContract testTaker,
      Read_balanceOf (toLowerCase (mktTokenContract_address testBackend)) testMaker,
      Read_getAccounts,
      Read_allowance (toLowerCase (mktTokenContract_address testBackend)) testMaker
        testFeeRecipient,
      Read_balanceOf (toLowerCase (mktTokenContract_address testBackend)) testTaker,
      Read_getAccounts,
      Read_allowance (toLowerCase (mktTokenContract_address testBackend)) testTaker
        testFeeRecipient,
      Read_getUserAccountBalance testContract testMaker,
      Read_getUserAccountBalance testContract testTaker,
      Read_PRICE_FLOOR testContract, Read_PRICE_CAP testContract,
      Read_QTY_MULTIPLIER testContract,
      Read_PRICE_FLOOR testContract, Read_PRICE_CAP testContract,
      Read_QTY_MULTIPLIER testContract,
      Send_tradeOrderTx testOrder (Finite 2) testTxParams]"
proof -
  have "calls (tradeOrderAsync testBackend testOrderLib testOrder (Finite 2) testTxParams) =
     [Read_isSettled testContract,
      Read_isValidSignature testOrderLib ''0xhash'',
      Read_isUserEnabledForContract testContract testMaker,
      Read_isUserEnabledForContract testContract testTaker,
      Read_balanceOf (toLowerCase (mktTokenContract_address testBackend)) testMaker,
      Read_getAccounts,
      Read_allowance (toLowerCase (mktTokenContract_address testBackend)) testMaker
        testFeeRecipient,
      Read_balanceOf (toLowerCase (mktTokenContract_address testBackend)) testTaker,
      Read_getAccounts,
      Read_allowance (toLowerCase (mktTokenContract_address testBackend)) testTaker
        testFeeRecipient,
      Read_getUserAccountBalance testContract testMaker,
      Read_getUserAccountBalance testContract testTaker,
      Read_PRICE_FLOOR testContract, Read_PRICE_CAP testContract,
      Read_QTY_MULTIPLIER testContract,
      Read_PRICE_FLOOR testContract, Read_PRICE_CAP testContract,
      Read_QTY_MULTIPLIER testContract,
      Send_tradeOrderTx testOrder (Finite 2) testTxParams]"
    using isETHAddressHex_fixtures fixture_accounts
    by (simp add: calls_def tradeOrderAsync_def wrapper_defs run_defs Let_def effectiveTaker_def
        testTxParams_def)
      (simp add: testBackend_def testOrder_def calculateNeededCollateral_Finite)
  then show ?thesis
    using assertionsBefore_fixtures(1)
    by (simp add: tradeOrderAsync_outcome Let_def checks_pass_fixture)
      (simp add: testBackend_def testOrder_def)
qed

text \<open>
  Claim C6, amended. A trade that fails, at any check or assertion, has made no call to
  \<^verbatim>\<open>tradeOrderTx\<close>; in particular a trade on which a check is violated has made none. A
  trade on which no check is violated and no assertion fails resolves; and a trade that
  resolves has passed every check, has made exactly one call to \<^verbatim>\<open>tradeOrderTx\<close>, after
  all the reads of its checks, and returns the metadata: the market contract, the echoed
  order and the transaction hash the call returned, and in the
  \<^verbatim>\<open>MarketProtocolContractWrapper\<close> also the block number, which it looks up for that
  hash after the submission. The metadata of the \<^verbatim>\<open>ContractWrapper\<close> holds no block
  number.
\<close>

theorem trade_order_submits_after_all_checks:
  "(firstViolation (tradeOrderChecks be lib (toLowerCase (mktTokenContract_address be))
      (getOrderHash be so) so fq tx) \<noteq> None \<longrightarrow>
      submissions (tradeOrderAsync be lib so fq tx) = []) \<and>
   (firstViolation (tradeOrderChecks be lib (toLowerCase (mktTokenContract_address be))
      (getOrderHash be so) so fq tx) = None \<and> assertionsBefore be so tx 13 \<longrightarrow>
      outcome (tradeOrderAsync be lib so fq tx) =
        Inr (OrderTransactionInfo (contractAddress so) so (tradeOrderTx be so fq tx) None)) \<and>
   (case outcome (tradeOrderAsync be lib so fq tx) of
      Inl e \<Rightarrow> submissions (tradeOrderAsync be lib so fq tx) = []
    | Inr info \<Rightarrow>
        firstViolation (tradeOrderChecks be lib (toLowerCase (mktTokenContract_address be))
          (getOrderHash be so) so fq tx) = None \<and>
        submissions (tradeOrderAsync be lib so fq tx) = [Send_tradeOrderTx so fq tx] \<and>
        last (calls (tradeOrderAsync be lib so fq tx)) = Send_tradeOrderTx so fq tx \<and>
        info = OrderTransactionInfo (contractAddress so) so (tradeOrderTx be so fq tx) None) \<and>
   (firstViolation (tradeOrderChecks be lib (mktTokenContract_address be)
      (createOrderHashAsync be lib so) so fq tx) \<noteq> None \<longrightarrow>
      submissions (tradeOrderAsync_MarketProtocol be lib so fq tx) = []) \<and>
   (firstViolation (tradeOrderChecks be lib (mktTokenContract_address be)
      (createOrderHashAsync be lib so) so fq tx) = None \<and> isETHAddressHex lib \<longrightarrow>
      outcome (tradeOrderAsync_MarketProtocol be lib so fq tx) =
        Inr (OrderTransactionInfo (contractAddress so) so (tradeOrderTx be so fq tx)
               (Some (getTransaction_blockNumber be (tradeOrderTx be so fq tx))))) \<and>
   (case outcome (tradeOrderAsync_MarketProtocol be lib so fq tx) of
      Inl e \<Rightarrow> submissions (tradeOrderAsync_MarketProtocol be lib so fq tx) = []
    | Inr info \<Rightarrow>
        firstViolation (tradeOrderChecks be lib (mktTokenContract_address be)
          (createOrderHashAsync be lib so) so fq tx) = None \<and>
        submissions (tradeOrderAsync_MarketProtocol be lib so fq tx) =
          [Send_tradeOrderTx so fq tx] \<and>
        (\<exists>reads. calls (tradeOrderAsync_MarketProtocol be lib so fq tx) =
           reads @ [Send_tradeOrderTx so fq tx,
                    Read_getTransaction (tradeOrderTx be so fq tx)]) \<and>
        info = OrderTransactionInfo (contractAddress so) so (tradeOrderTx be so fq tx)
                 (Some (getTransaction_blockNumber be (tradeOrderTx be so fq tx))))"
proof -
  note W = tradeOrderAsync_submits_after_all_checks [of be lib so fq tx]
  note M = tradeOrderAsync_MarketProtocol_submits_after_all_checks [of be lib so fq tx]
  have w1: "submissions (tradeOrderAsync be lib so fq tx) = []"
    if "firstViolation (tradeOrderChecks be lib (toLowerCase (mktTokenContract_address be))
      (getOrderHash be so) so fq tx) \<noteq> None"
    using W that by (cases "outcome (tradeOrderAsync be lib so fq tx)") simp_all
  have m1: "submissions (tradeOrderAsync_MarketProtocol be lib so fq tx) = []"
    if "firstViolation (tradeOrderChecks be lib (mktTokenContract_address be)
      (createOrderHashAsync be lib so) so fq tx) \<noteq> None"
    using M that by (cases "outcome (tradeOrderAsync_MarketProtocol be lib so fq tx)") simp_all
  have w2: "outcome (tradeOrderAsync be lib so fq tx) =
        Inr (OrderTransactionInfo (contractAddress so) so (tradeOrderTx be so fq tx) None)"
    if pass: "firstViolation (tradeOrderChecks be lib (toLowerCase (mktTokenContract_address be))
      (getOrderHash be so) so fq tx) = None" "assertionsBefore be so tx 13"
  proof -
    obtain info where "outcome (tradeOrderAsync be lib so fq tx) = Inr info"
      using tradeOrderAsync_resolved_iff [of be lib so fq tx] pass by blast
    with W show ?thesis by simp
  qed
  have m2: "outcome (tradeOrderAsync_MarketProtocol be lib so fq tx) =
        Inr (OrderTransactionInfo (contractAddress so) so (tradeOrderTx be so fq tx)
               (Some (getTransaction_blockNumber be (tradeOrderTx be so fq tx))))"
    if "firstViolation (tradeOrderChecks be lib (mktTokenContract_address be)
      (createOrderHashAsync be lib so) so fq tx) = None" "isETHAddressHex lib"
    using that by (simp add: tradeOrderAsync_MarketProtocol_outcome)
  from w1 w2 m1 m2 W M show ?thesis by blast
qed

theorem trade_order_submits_after_all_checks_witness:
  "firstViolation (tradeOrderChecks testBackend testOrderLib
     (toLowerCase (mktTokenContract_address testBackend)) (getOrderHash testBackend testOrder)
     testOrder (Finite (- 2)) testTxParams) = Some BuySellMismatch \<and>
   outcome (tradeOrderAsync testBackend testOrderLib testOrder (Finite (- 2)) testTxParams) =
     Inl (MarketFailure BuySellMismatch) \<and>
   submissions (tradeOrderAsync testBackend testOrderLib testOrder (Finite (- 2))
     testTxParams) = [] \<and>
   submissions (tradeOrderAsync_MarketProtocol testBackend testOrderLib testOrder (Finite (- 2))
     testTxParams) = [] \<and>
   firstViolation (tradeOrderChecks testBackend testOrderLib
     (toLowerCase (mktTokenContract_address testBackend)) (getOrderHash testBackend testOrder)
     testOrder (Finite 2) testTxParams) = None \<and>
   assertionsBefore testBackend testOrder testTxParams 13 \<and>
   isETHAddressHex testOrderLib \<and>
   outcome (tradeOrderAsync testBackend testOrderLib testOrder (Finite 2) testTxParams) =
     Inr (OrderTransactionInfo testContract testOrder ''0xtx'' None) \<and>
   submissions (tradeOrderAsync testBackend testOrderLib testOrder (Finite 2) testTxParams) =
     [Send_tradeOrderTx testOrder (Finite 2) testTxParams] \<and>
   outcome (tradeOrderAsync_MarketProtocol testBackend testOrderLib testOrder (Finite 2)
     testTxParams) = Inr (OrderTransactionInfo testContract testOrder ''0xtx'' (Some 7)) \<and>
   submissions (tradeOrderAsync_MarketProtocol testBackend testOrderLib testOrder (Finite 2)
     testTxParams) = [Send_tradeOrderTx testOrder (Finite 2) testTxParams]"
proof -
  note v = checks_mismatch_fixture(1)
  note p = checks_pass_fixture
  note a = assertionsBefore_fixtures(1) [of 13]
  note l = isETHAddressHex_fixtures(4)
  note fail = trade_order_submits_after_all_checks
    [of testBackend testOrderLib testOrder "Finite (- 2)" testTxParams]
  note pass = trade_order_submits_after_all_checks
    [of testBackend testOrderLib testOrder "Finite 2" testTxParams]
  have e: "outcome (tradeOrderAsync testBackend testOrderLib testOrder (Finite (- 2))
      testTxParams) = Inl (MarketFailure BuySellMismatch)"
    using assertionsBefore_fixtures(1)
    by (simp add: tradeOrderAsync_outcome Let_def checks_mismatch_fixture)
  have s: "submissions (tradeOrderAsync testBackend testOrderLib testOrder (Finite (- 2))
      testTxParams) = []"
    "submissions (tradeOrderAsync_MarketProtocol testBackend testOrderLib testOrder
      (Finite (- 2)) testTxParams) = []"
    using fail v by simp_all
  have w: "outcome (tradeOrderAsync testBackend testOrderLib testOrder (Finite 2) testTxParams) =
      Inr (OrderTransactionInfo (contractAddress testOrder) testOrder
             (tradeOrderTx testBackend testOrder (Finite 2) testTxParams) None)"
    using pass p a by blast
  have m: "outcome (tradeOrderAsync_MarketProtocol testBackend testOrderLib testOrder (Finite 2)
      testTxParams) =
      Inr (OrderTransactionInfo (contractAddress testOrder) testOrder
             (tradeOrderTx testBackend testOrder (Finite 2) testTxParams)
             (Some (getTransaction_blockNumber testBackend
                (tradeOrderTx testBackend testOrder (Finite 2) testTxParams))))"
    using pass p l by blast
  have sw: "submissions (tradeOrderAsync testBackend testOrderLib testOrder (Finite 2)
      testTxParams) = [Send_tradeOrderTx testOrder (Finite 2) testTxParams]"
    using pass w by simp
  have sm: "submissions (tradeOrderAsync_MarketProtocol testBackend testOrderLib testOrder
      (Finite 2) testTxParams) = [Send_tradeOrderTx testOrder (Finite 2) testTxParams]"
    using pass m by simp
  have vals: "contractAddress testOrder = testContract"
    "tradeOrderTx testBackend testOrder (Finite 2) testTxParams = ''0xtx''"
    "getTransaction_blockNumber testBackend ''0xtx'' = 7"
    by (simp_all add: testOrder_def testBackend_def)
  from v e s p a l w m sw sm show ?thesis
    by (simp add: vals)
qed

section \<open>The order of the fee-fund checks\<close>

text \<open>The outcome of the shared sub-check, and the calculator's use of it for the maker.\<close>

lemma getAvailableFeeFunds_outcome:
  "outcome (getAvailableFeeFunds be so account) =
     (let allowed = allowance be (toLowerCase (mktTokenContract_address be)) account
                      (feeRecipient so)
      in
      if \<not> feeReadsAccepted be so account then Inl AssertionFailure
      else if (account = maker so \<and> isLessThan allowed (makerFee so)) \<or>
              (account = taker so \<and> isLessThan allowed (takerFee so))
      then Inl (MarketFailure InsufficientAllowanceForTransfer)
      else Inr (balanceOf be (toLowerCase (mktTokenContract_address be)) account))"
  by (auto simp add: outcome_def getAvailableFeeFunds_run feeReadsAccepted_def Let_def)

lemma fee_subcheck_maker_allowance:
  assumes "feeReadsAccepted be so (maker so)"
    and "isLessThan (allowance be (toLowerCase (mktTokenContract_address be)) (maker so)
           (feeRecipient so)) (makerFee so)"
  shows "outcome (computeRemainingMakerFillable be so h) =
           Inl (MarketFailure InsufficientAllowanceForTransfer) \<and>
         calls (computeRemainingMakerFillable be so h) =
           [Read_getAccounts,
            Read_allowance (toLowerCase (mktTokenContract_address be)) (maker so)
              (feeRecipient so)]"
  using assms
  by (simp add: outcome_def calls_def computeRemainingMakerFillable_run Let_def
      feeReadsAccepted_def)

lemma fee_subcheck_maker_balance:
  assumes "outcome (getAvailableFeeFunds be so (maker so)) = Inr funds"
    and "isLessThan funds (makerFee so)"
  shows "funds = balanceOf be (toLowerCase (mktTokenContract_address be)) (maker so) \<and>
         outcome (computeRemainingMakerFillable be so h) =
           Inl (MarketFailure InsufficientBalanceForTransfer) \<and>
         calls (computeRemainingMakerFillable be so h) =
           [Read_getAccounts,
            Read_allowance (toLowerCase (mktTokenContract_address be)) (maker so)
              (feeRecipient so),
            Read_balanceOf (toLowerCase (mktTokenContract_address be)) (maker so)]"
  using assms isLessThan_not_gte [of funds "makerFee so"]
  by (auto simp: outcome_def calls_def computeRemainingMakerFillable_run
      getAvailableFeeFunds_run Let_def split: if_splits)

text \<open>The calculator's use of the sub-check for a named taker, once the maker's side has passed.\<close>

lemma computeRemainingTakerFillable_fee:
  assumes "outcome (computeRemainingMakerFillable be so h) = Inr makerFillable"
    and "taker so \<noteq> NULL_ADDRESS"
    and "outcome (getAvailableFeeFunds be so (taker so)) = Inl failure"
  shows "outcome (computeRemainingTakerFillable be so h) = Inl failure"
proof -
  obtain tr where m: "computeRemainingMakerFillable be so h [] = (Inr makerFillable, tr)"
    using assms(1) by (cases "computeRemainingMakerFillable be so h []") (simp add: outcome_def)
  let ?tr = "tr @ [Read_getUserAccountBalance (contractAddress so) (taker so)]"
  have same: "fst (getAvailableFeeFunds be so (taker so) ?tr) =
      fst (getAvailableFeeFunds be so (taker so) [])"
    by (auto simp add: getAvailableFeeFunds_run Let_def)
  obtain tr' where "getAvailableFeeFunds be so (taker so) ?tr = (Inl failure, tr')"
    using assms(3) same
    by (cases "getAvailableFeeFunds be so (taker so) ?tr") (simp add: outcome_def)
  with m assms(2) show ?thesis
    by (simp add: outcome_def computeRemainingTakerFillable_def
        hasTakerSufficientFundsForFee_def getAvailableCollateral_def
        getUserUnallocatedCollateralBalanceAsync_def run_defs)
qed

lemma fee_subcheck_taker_allowance:
  assumes "outcome (computeRemainingMakerFillable be so h) = Inr makerFillable"
    and "taker so \<noteq> NULL_ADDRESS"
    and "feeReadsAccepted be so (taker so)"
    and "isLessThan (allowance be (toLowerCase (mktTokenContract_address be)) (taker so)
           (feeRecipient so)) (takerFee so)"
  shows "outcome (computeRemainingTakerFillable be so h) =
           Inl (MarketFailure InsufficientAllowanceForTransfer) \<and>
         calls (computeRemainingTakerFillable be so h) =
           calls (computeRemainingMakerFillable be so h) @
           [Read_getUserAccountBalance (contractAddress so) (taker so),
            Read_getAccounts,
            Read_allowance (toLowerCase (mktTokenContract_address be)) (taker so)
              (feeRecipient so)]"
proof -
  obtain tr where m: "computeRemainingMakerFillable be so h [] = (Inr makerFillable, tr)"
    using assms(1) by (cases "computeRemainingMakerFillable be so h []") (simp add: outcome_def)
  have "computeRemainingTakerFillable be so h [] =
      (Inl (MarketFailure InsufficientAllowanceForTransfer),
       tr @ [Read_getUserAccountBalance (contractAddress so) (taker so),
             Read_getAccounts,
             Read_allowance (toLowerCase (mktTokenContract_address be)) (taker so)
               (feeRecipient so)])"
    using m assms(2-4)
    by (simp add: computeRemainingTakerFillable_def hasTakerSufficientFundsForFee_def
        getAvailableCollateral_def getUserUnallocatedCollateralBalanceAsync_def
        getAvailableFeeFunds_run feeReadsAccepted_def run_defs Let_def)
  with m show ?thesis
    by (simp add: outcome_def calls_def)
qed

lemma fee_subcheck_taker_balance:
  assumes "outcome (computeRemainingMakerFillable be so h) = Inr makerFillable"
    and "taker so \<noteq> NULL_ADDRESS"
    and "outcome (getAvailableFeeFunds be so (taker so)) = Inr funds"
    and "isLessThan funds (takerFee so)"
  shows "funds = balanceOf be (toLowerCase (mktTokenContract_address be)) (taker so) \<and>
         outcome (computeRemainingTakerFillable be so h) =
           Inl (MarketFailure InsufficientBalanceForTransfer)"
proof -
  obtain tr where m: "computeRemainingMakerFillable be so h [] = (Inr makerFillable, tr)"
    using assms(1) by (cases "computeRemainingMakerFillable be so h []") (simp add: outcome_def)
  from assms(3) have funds:
    "funds = balanceOf be (toLowerCase (mktTokenContract_address be)) (taker so)"
    by (simp add: getAvailableFeeFunds_outcome Let_def split: if_splits)
  let ?tr = "tr @ [Read_getUserAccountBalance (contractAddress so) (taker so)]"
  have same: "fst (getAvailableFeeFunds be so (taker so) ?tr) =
      fst (getAvailableFeeFunds be so (taker so) [])"
    by (auto simp add: getAvailableFeeFunds_run Let_def)
  obtain tr' where "getAvailableFeeFunds be so (taker so) ?tr = (Inr funds, tr')"
    using assms(3) same
    by (cases "getAvailableFeeFunds be so (taker so) ?tr") (simp add: outcome_def)
  with m assms(2) isLessThan_not_gte [OF assms(4)] funds show ?thesis
    by (simp add: outcome_def computeRemainingTakerFillable_def
        hasTakerSufficientFundsForFee_def getAvailableCollateral_def
        getUserUnallocatedCollateralBalanceAsync_def run_defs)
qed

text \<open>The checks that follow a prefix of the sequence without a violation.\<close>

lemma firstViolation_append:
  "firstViolation xs = None \<Longrightarrow> firstViolation (xs @ ys) = firstViolation ys"
  by (induction xs) (auto simp: firstViolation_def split: if_splits)

lemma firstViolationIndex_append:
  "firstViolation xs = None \<Longrightarrow>
     firstViolationIndex (xs @ ys) = length xs + firstViolationIndex ys"
  by (induction xs) (auto simp: firstViolation_def firstViolationIndex_def split: if_splits)

lemma checks_after_step_7:
  assumes "firstViolation (take 7 checks) = None" and "7 \<le> length checks"
  shows "firstViolation checks = firstViolation (drop 7 checks)"
    and "firstViolationIndex checks = 7 + firstViolationIndex (drop 7 checks)"
  using firstViolation_append [OF assms(1), of "drop 7 checks"]
    firstViolationIndex_append [OF assms(1), of "drop 7 checks"] assms(2)
  by simp_all

text \<open>
  Step 8 of the two wrappers, once steps 1 to 7 have passed: the balance is compared
  before the allowance, for the maker and then for the taker, each read of the
  \<^verbatim>\<open>ContractWrapper\<close> after its assertions.
\<close>

lemma tradeOrderAsync_fee_checks:
  assumes "isSchemaValid be so"
    and "firstViolation (take 7 (tradeOrderChecks be lib
           (toLowerCase (mktTokenContract_address be)) (getOrderHash be so) so fq tx)) = None"
  shows "outcome (tradeOrderAsync be lib so fq tx) =
     (let feeToken = toLowerCase (mktTokenContract_address be); tkr = effectiveTaker tx in
      if \<not> (isETHAddressHex (maker so) \<and> isETHAddressHex (mktTokenContract_address be))
      then Inl AssertionFailure
      else if isLessThan (balanceOf be feeToken (maker so)) (makerFee so)
      then Inl (MarketFailure InsufficientBalanceForTransfer)
      else if \<not> (isETHAddressHex (feeRecipient so) \<and> maker so \<in> set (getAccounts be))
      then Inl AssertionFailure
      else if isLessThan (allowance be feeToken (maker so) (feeRecipient so)) (makerFee so)
      then Inl (MarketFailure InsufficientAllowanceForTransfer)
      else if \<not> isETHAddressHex tkr
      then Inl AssertionFailure
      else if isLessThan (balanceOf be feeToken tkr) (takerFee so)
      then Inl (MarketFailure InsufficientBalanceForTransfer)
      else if tkr \<notin> set (getAccounts be)
      then Inl AssertionFailure
      else if isLessThan (allowance be feeToken tkr (feeRecipient so)) (takerFee so)
      then Inl (MarketFailure InsufficientAllowanceForTransfer)
      else outcome (tradeOrderAsync be lib so fq tx))"
proof -
  let ?checks = "tradeOrderChecks be lib (toLowerCase (mktTokenContract_address be))
    (getOrderHash be so) so fq tx"
  have len: "7 \<le> length ?checks"
    by (simp add: tradeOrderChecks_def Let_def)
  note after = checks_after_step_7 [OF assms(2) len]
  show ?thesis
    unfolding tradeOrderAsync_outcome Let_def after
    using assms(1)
    by (auto simp add: tradeOrderChecks_def Let_def firstViolation_def firstViolationIndex_def
        assertionsBefore_def)
qed

lemma tradeOrderAsync_MarketProtocol_fee_checks:
  assumes "isETHAddressHex lib"
    and "firstViolation (take 7 (tradeOrderChecks be lib
           (mktTokenContract_address be) (createOrderHashAsync be lib so) so fq tx)) = None"
  shows "outcome (tradeOrderAsync_MarketProtocol be lib so fq tx) =
     (let feeToken = mktTokenContract_address be; tkr = effectiveTaker tx in
      if isLessThan (balanceOf be feeToken (maker so)) (makerFee so)
      then Inl (MarketFailure InsufficientBalanceForTransfer)
      else if isLessThan (allowance be feeToken (maker so) (feeRecipient so)) (makerFee so)
      then Inl (MarketFailure InsufficientAllowanceForTransfer)
      else if isLessThan (balanceOf be feeToken tkr) (takerFee so)
      then Inl (MarketFailure InsufficientBalanceForTransfer)
      else if isLessThan (allowance be feeToken tkr (feeRecipient so)) (takerFee so)
      then Inl (MarketFailure InsufficientAllowanceForTransfer)
      else outcome (tradeOrderAsync_MarketProtocol be lib so fq tx))"
proof -
  let ?checks = "tradeOrderChecks be lib (mktTokenContract_address be)
    (createOrderHashAsync be lib so) so fq tx"
  have len: "7 \<le> length ?checks"
    by (simp add: tradeOrderChecks_def Let_def)
  note after = checks_after_step_7 [OF assms(2) len]
  show ?thesis
    unfolding tradeOrderAsync_MarketProtocol_outcome Let_def after
    using assms(1)
    by (auto simp add: tradeOrderChecks_def Let_def firstViolation_def)
qed

text \<open>The fixtures of the fee checks.\<close>

lemma steps_1_to_7_pass_fixture:
  "firstViolation (take 7 (tradeOrderChecks noFeeFundsBackend testOrderLib tok hash testOrder
     (Finite 2) testTxParams)) = None"
  by (simp add: firstViolation_def tradeOrderChecks_def Let_def noFeeFundsBackend_def
      testBackend_def testOrder_def testTxParams_def effectiveTaker_def)

lemma feeReadsAccepted_fixtures:
  "feeReadsAccepted noAllowanceBackend testOrder (maker testOrder)"
  "feeReadsAccepted noBalanceBackend testOrder (maker testOrder)"
  "feeReadsAccepted takerNoAllowanceBackend takerOrder (maker takerOrder)"
  "feeReadsAccepted takerNoAllowanceBackend takerOrder (taker takerOrder)"
  "feeReadsAccepted takerNoBalanceBackend takerOrder (maker takerOrder)"
  "feeReadsAccepted takerNoBalanceBackend takerOrder (taker takerOrder)"
  "\<not> feeReadsAccepted remoteMakerNoAllowanceBackend testOrder (maker testOrder)"
  using isETHAddressHex_fixtures fixture_accounts
  by (simp_all add: feeReadsAccepted_def noAllowanceBackend_def noBalanceBackend_def
      takerNoAllowanceBackend_def takerNoBalanceBackend_def remoteMakerNoAllowanceBackend_def
      takerOrder_def testOrder_def)
    (simp_all add: testBackend_def)

lemma maker_fillable_fixture:
  "outcome (computeRemainingMakerFillable takerNoAllowanceBackend takerOrder ''0xhash'') =
     Inr (Finite 50)"
  "outcome (computeRemainingMakerFillable takerNoBalanceBackend takerOrder ''0xhash'') =
     Inr (Finite 50)"
proof -
  have "outcome (hasMakerSufficientFundsForFee takerNoAllowanceBackend takerOrder) = Inr True"
    "outcome (hasMakerSufficientFundsForFee takerNoBalanceBackend takerOrder) = Inr True"
    using feeReadsAccepted_fixtures(3,5) fixture_accounts
    by (simp_all add: outcome_def hasMakerSufficientFundsForFee_def getAvailableFeeFunds_run
        feeReadsAccepted_def run_defs Let_def gte_def isGreaterThan_def)
      (simp_all add: takerNoAllowanceBackend_def takerNoBalanceBackend_def takerOrder_def
        testBackend_def testOrder_def)
  then show
    "outcome (computeRemainingMakerFillable takerNoAllowanceBackend takerOrder ''0xhash'') =
       Inr (Finite 50)"
    "outcome (computeRemainingMakerFillable takerNoBalanceBackend takerOrder ''0xhash'') =
       Inr (Finite 50)"
    by (simp_all add: computeRemainingMakerFillable_passed takerNoAllowanceBackend_def
        takerNoBalanceBackend_def takerOrder_def testBackend_def testOrder_def
        calculateNeededCollateral_Finite round_half_up_def DECIMAL_PLACES_def floor_rat_numeral
        BigNumber_min_Finite minus_def)
qed

text \<open>
  Claim C5, as stated, at step 8 of \<open>tradeOrderAsync\<close>. A maker whose allowance and
  balance are both below the fee is rejected with \<open>InsufficientBalanceForTransfer\<close>:
  the wrapper compares the balance first. The order-validation test
  \<^verbatim>\<open>Checks sufficient MKT balances for fees\<close> expects exactly this.
\<close>

theorem trade_order_checks_balance_before_allowance:
  "isLessThan
     (allowance noFeeFundsBackend (toLowerCase (mktTokenContract_address noFeeFundsBackend))
        (maker testOrder) (feeRecipient testOrder))
     (makerFee testOrder) \<and>
   outcome (tradeOrderAsync noFeeFundsBackend testOrderLib testOrder (Finite 2) testTxParams) =
     Inl (MarketFailure InsufficientBalanceForTransfer) \<and>
   outcome (tradeOrderAsync noFeeFundsBackend testOrderLib testOrder (Finite 2) testTxParams) \<noteq>
     Inl (MarketFailure InsufficientAllowanceForTransfer)"
proof -
  have "firstViolation (tradeOrderChecks noFeeFundsBackend testOrderLib tok h testOrder
      (Finite 2) testTxParams) = Some InsufficientBalanceForTransfer" for tok h
    by (simp add: firstViolation_def tradeOrderChecks_def Let_def noFeeFundsBackend_def
        testBackend_def testOrder_def testTxParams_def effectiveTaker_def)
  then have "outcome (tradeOrderAsync noFeeFundsBackend testOrderLib testOrder (Finite 2)
      testTxParams) = Inl (MarketFailure InsufficientBalanceForTransfer)"
    using assertionsBefore_fixtures(2)
    by (simp add: tradeOrderAsync_outcome Let_def)
  then show ?thesis
    by (simp add: noFeeFundsBackend_def testBackend_def testOrder_def)
qed

text \<open>
  Claim C5, amended. The sub-check shared by \<open>computeRemainingMakerFillable\<close> and
  \<open>computeRemainingTakerFillable\<close> reads the allowance first, and the read asserts the
  format of the account's, the fee token's and the fee recipient's address and that the
  account is one of the node's: when an assertion fails the sub-check ends with its
  plain error. When they pass, the allowance granted to the fee recipient is compared
  with the full fee before the balance is read: below the fee the call fails with
  \<open>InsufficientAllowanceForTransfer\<close> (for the maker, after the node's accounts and the
  allowance and nothing else have been read; for a named taker, after the maker's
  computation and the taker's collateral, the node's accounts and the allowance have
  been read, and not the taker's balance); with the allowance accepted and the balance
  below the fee it fails with \<open>InsufficientBalanceForTransfer\<close>. In step 8 of
  \<open>tradeOrderAsync\<close>, in both wrappers, the order is the reverse, for the maker and then
  for the taker: a balance below the fee fails with \<open>InsufficientBalanceForTransfer\<close>
  whatever the allowance, and a sufficient balance with an allowance below the fee fails
  with \<open>InsufficientAllowanceForTransfer\<close>; in the \<^verbatim>\<open>ContractWrapper\<close> each of the four
  reads is made after its assertions.
\<close>

theorem fee_funds_check_order:
  "outcome (getAvailableFeeFunds be so account) =
     (let allowed = allowance be (toLowerCase (mktTokenContract_address be)) account
                      (feeRecipient so)
      in
      if \<not> feeReadsAccepted be so account then Inl AssertionFailure
      else if (account = maker so \<and> isLessThan allowed (makerFee so)) \<or>
              (account = taker so \<and> isLessThan allowed (takerFee so))
      then Inl (MarketFailure InsufficientAllowanceForTransfer)
      else Inr (balanceOf be (toLowerCase (mktTokenContract_address be)) account)) \<and>
   (feeReadsAccepted be so (maker so) \<and>
    isLessThan (allowance be (toLowerCase (mktTokenContract_address be)) (maker so)
      (feeRecipient so)) (makerFee so) \<longrightarrow>
      outcome (computeRemainingMakerFillable be so h) =
        Inl (MarketFailure InsufficientAllowanceForTransfer) \<and>
      calls (computeRemainingMakerFillable be so h) =
        [Read_getAccounts,
         Read_allowance (toLowerCase (mktTokenContract_address be)) (maker so)
           (feeRecipient so)]) \<and>
   (outcome (getAvailableFeeFunds be so (maker so)) = Inr funds \<and>
    isLessThan funds (makerFee so) \<longrightarrow>
      funds = balanceOf be (toLowerCase (mktTokenContract_address be)) (maker so) \<and>
      outcome (computeRemainingMakerFillable be so h) =
        Inl (MarketFailure InsufficientBalanceForTransfer) \<and>
      calls (computeRemainingMakerFillable be so h) =
        [Read_getAccounts,
         Read_allowance (toLowerCase (mktTokenContract_address be)) (maker so)
           (feeRecipient so),
         Read_balanceOf (toLowerCase (mktTokenContract_address be)) (maker so)]) \<and>
   (outcome (computeRemainingMakerFillable be so h) = Inr makerFillable \<and>
    taker so \<noteq> NULL_ADDRESS \<and> feeReadsAccepted be so (taker so) \<and>
    isLessThan (allowance be (toLowerCase (mktTokenContract_address be)) (taker so)
      (feeRecipient so)) (takerFee so) \<longrightarrow>
      outcome (computeRemainingTakerFillable be so h) =
        Inl (MarketFailure InsufficientAllowanceForTransfer) \<and>
      calls (computeRemainingTakerFillable be so h) =
        calls (computeRemainingMakerFillable be so h) @
        [Read_getUserAccountBalance (contractAddress so) (taker so),
         Read_getAccounts,
         Read_allowance (toLowerCase (mktTokenContract_address be)) (taker so)
           (feeRecipient so)]) \<and>
   (outcome (computeRemainingMakerFillable be so h) = Inr makerFillable \<and>
    taker so \<noteq> NULL_ADDRESS \<and>
    outcome (getAvailableFeeFunds be so (taker so)) = Inr takerFunds \<and>
    isLessThan takerFunds (takerFee so) \<longrightarrow>
      takerFunds = balanceOf be (toLowerCase (mktTokenContract_address be)) (taker so) \<and>
      outcome (computeRemainingTakerFillable be so h) =
        Inl (MarketFailure InsufficientBalanceForTransfer)) \<and>
   (isSchemaValid be so \<and>
    firstViolation (take 7 (tradeOrderChecks be lib (toLowerCase (mktTokenContract_address be))
      (getOrderHash be so) so fq tx)) = None \<longrightarrow>
      outcome (tradeOrderAsync be lib so fq tx) =
        (let feeToken = toLowerCase (mktTokenContract_address be); tkr = effectiveTaker tx in
         if \<not> (isETHAddressHex (maker so) \<and> isETHAddressHex (mktTokenContract_address be))
         then Inl AssertionFailure
         else if isLessThan (balanceOf be feeToken (maker so)) (makerFee so)
         then Inl (MarketFailure InsufficientBalanceForTransfer)
         else if \<not> (isETHAddressHex (feeRecipient so) \<and> maker so \<in> set (getAccounts be))
         then Inl AssertionFailure
         else if isLessThan (allowance be feeToken (maker so) (feeRecipient so)) (makerFee so)
         then Inl (MarketFailure InsufficientAllowanceForTransfer)
         else if \<not> isETHAddressHex tkr
         then Inl AssertionFailure
         else if isLessThan (balanceOf be feeToken tkr) (takerFee so)
         then Inl (MarketFailure InsufficientBalanceForTransfer)
         else if tkr \<notin> set (getAccounts be)
         then Inl AssertionFailure
         else if isLessThan (allowance be feeToken tkr (feeRecipient so)) (takerFee so)
         then Inl (MarketFailure InsufficientAllowanceForTransfer)
         else outcome (tradeOrderAsync be lib so fq tx))) \<and>
   (isETHAddressHex lib \<and>
    firstViolation (take 7 (tradeOrderChecks be lib (mktTokenContract_address be)
      (createOrderHashAsync be lib so) so fq tx)) = None \<longrightarrow>
      outcome (tradeOrderAsync_MarketProtocol be lib so fq tx) =
        (let feeToken = mktTokenContract_address be; tkr = effectiveTaker tx in
         if isLessThan (balanceOf be feeToken (maker so)) (makerFee so)
         then Inl (MarketFailure InsufficientBalanceForTransfer)
         else if isLessThan (allowance be feeToken (maker so) (feeRecipient so)) (makerFee so)
         then Inl (MarketFailure InsufficientAllowanceForTransfer)
         else if isLessThan (balanceOf be feeToken tkr) (takerFee so)
         then Inl (MarketFailure InsufficientBalanceForTransfer)
         else if isLessThan (allowance be feeToken tkr (feeRecipient so)) (takerFee so)
         then Inl (MarketFailure InsufficientAllowanceForTransfer)
         else outcome (tradeOrderAsync_MarketProtocol be lib so fq tx)))"
  using getAvailableFeeFunds_outcome [of be so account]
    fee_subcheck_maker_allowance [of be so h] fee_subcheck_maker_balance [of be so funds h]
    fee_subcheck_taker_allowance [of be so h makerFillable]
    fee_subcheck_taker_balance [of be so h makerFillable takerFunds]
    tradeOrderAsync_fee_checks [of be so lib fq tx]
    tradeOrderAsync_MarketProtocol_fee_checks [of lib be so fq tx]
  by blast

theorem fee_funds_check_order_witness:
  "\<not> feeReadsAccepted remoteMakerNoAllowanceBackend testOrder (maker testOrder) \<and>
   outcome (getAvailableFeeFunds remoteMakerNoAllowanceBackend testOrder (maker testOrder)) =
     Inl AssertionFailure \<and>
   outcome (computeRemainingMakerFillable noAllowanceBackend testOrder ''0xhash'') =
     Inl (MarketFailure InsufficientAllowanceForTransfer) \<and>
   calls (computeRemainingMakerFillable noAllowanceBackend testOrder ''0xhash'') =
     [Read_getAccounts,
      Read_allowance (toLowerCase (mktTokenContract_address noAllowanceBackend)) testMaker
        testFeeRecipient] \<and>
   outcome (computeRemainingMakerFillable noBalanceBackend testOrder ''0xhash'') =
     Inl (MarketFailure InsufficientBalanceForTransfer) \<and>
   outcome (computeRemainingTakerFillable takerNoAllowanceBackend takerOrder ''0xhash'') =
     Inl (MarketFailure InsufficientAllowanceForTransfer) \<and>
   outcome (computeRemainingTakerFillable takerNoBalanceBackend takerOrder ''0xhash'') =
     Inl (MarketFailure InsufficientBalanceForTransfer) \<and>
   outcome (tradeOrderAsync noFeeFundsBackend testOrderLib testOrder (Finite 2) testTxParams) =
     Inl (MarketFailure InsufficientBalanceForTransfer) \<and>
   outcome (tradeOrderAsync_MarketProtocol noFeeFundsBackend testOrderLib testOrder (Finite 2)
     testTxParams) = Inl (MarketFailure InsufficientBalanceForTransfer)"
proof -
  note r = feeReadsAccepted_fixtures
  have 0: "outcome (getAvailableFeeFunds remoteMakerNoAllowanceBackend testOrder
      (maker testOrder)) = Inl AssertionFailure"
    using r(7)
      fee_funds_check_order [where be = remoteMakerNoAllowanceBackend and so = testOrder
        and account = "maker testOrder"]
    by simp
  have 1: "isLessThan (allowance noAllowanceBackend
      (toLowerCase (mktTokenContract_address noAllowanceBackend))
      (maker testOrder) (feeRecipient testOrder)) (makerFee testOrder)"
    by (simp add: noAllowanceBackend_def testBackend_def testOrder_def)
  have 2: "outcome (getAvailableFeeFunds noBalanceBackend testOrder (maker testOrder)) =
      Inr (Finite 0)" "isLessThan (Finite 0) (makerFee testOrder)"
    using r(2)
    by (simp_all add: getAvailableFeeFunds_outcome Let_def)
      (simp_all add: noBalanceBackend_def testBackend_def testOrder_def)
  have 3: "taker takerOrder \<noteq> NULL_ADDRESS"
    "isLessThan (allowance takerNoAllowanceBackend
       (toLowerCase (mktTokenContract_address takerNoAllowanceBackend)) (taker takerOrder)
       (feeRecipient takerOrder)) (takerFee takerOrder)"
    using fixture_accounts
    by (simp_all add: takerOrder_def testOrder_def takerNoAllowanceBackend_def testBackend_def)
  have 4: "outcome (getAvailableFeeFunds takerNoBalanceBackend takerOrder (taker takerOrder)) =
      Inr (Finite 0)" "isLessThan (Finite 0) (takerFee takerOrder)"
    using r(6) fixture_accounts
    by (simp_all add: getAvailableFeeFunds_outcome Let_def)
      (simp_all add: takerNoBalanceBackend_def testBackend_def takerOrder_def testOrder_def)
  have s: "isSchemaValid noFeeFundsBackend testOrder"
    by (simp add: noFeeFundsBackend_def testBackend_def)
  note l = isETHAddressHex_fixtures(4)
  note p = steps_1_to_7_pass_fixture
  have m: "maker testOrder = testMaker" "feeRecipient testOrder = testFeeRecipient"
    by (simp_all add: testOrder_def)
  have h: "isETHAddressHex (maker testOrder)"
    "isETHAddressHex (mktTokenContract_address noFeeFundsBackend)"
    using isETHAddressHex_fixtures by (simp_all add: testOrder_def noFeeFundsBackend_def)
  have b: "isLessThan (balanceOf noFeeFundsBackend tok (maker testOrder)) (makerFee testOrder)"
    for tok
    by (simp add: noFeeFundsBackend_def testBackend_def testOrder_def)
  from 1 r(1)
    fee_funds_check_order [where be = noAllowanceBackend and so = testOrder
      and h = "''0xhash''"]
  have A: "outcome (computeRemainingMakerFillable noAllowanceBackend testOrder ''0xhash'') =
     Inl (MarketFailure InsufficientAllowanceForTransfer) \<and>
     calls (computeRemainingMakerFillable noAllowanceBackend testOrder ''0xhash'') =
     [Read_getAccounts,
      Read_allowance (toLowerCase (mktTokenContract_address noAllowanceBackend)) testMaker
        testFeeRecipient]"
    by (simp add: m)
  from 2
    fee_funds_check_order [where be = noBalanceBackend and so = testOrder
      and h = "''0xhash''" and funds = "Finite 0"]
  have B: "outcome (computeRemainingMakerFillable noBalanceBackend testOrder ''0xhash'') =
     Inl (MarketFailure InsufficientBalanceForTransfer)"
    by simp
  from 3 r(4) maker_fillable_fixture(1)
    fee_funds_check_order [where be = takerNoAllowanceBackend and so = takerOrder
      and h = "''0xhash''" and makerFillable = "Finite 50"]
  have C: "outcome (computeRemainingTakerFillable takerNoAllowanceBackend takerOrder ''0xhash'') =
     Inl (MarketFailure InsufficientAllowanceForTransfer)"
    by simp
  from 3(1) 4 maker_fillable_fixture(2)
    fee_funds_check_order [where be = takerNoBalanceBackend and so = takerOrder
      and h = "''0xhash''" and makerFillable = "Finite 50" and takerFunds = "Finite 0"]
  have D: "outcome (computeRemainingTakerFillable takerNoBalanceBackend takerOrder ''0xhash'') =
     Inl (MarketFailure InsufficientBalanceForTransfer)"
    by simp
  from s l p b h
    fee_funds_check_order [where be = noFeeFundsBackend and so = testOrder
      and tx = testTxParams and lib = testOrderLib and fq = "Finite 2"]
  have E: "outcome (tradeOrderAsync noFeeFundsBackend testOrderLib testOrder (Finite 2)
      testTxParams) = Inl (MarketFailure InsufficientBalanceForTransfer) \<and>
    outcome (tradeOrderAsync_MarketProtocol noFeeFundsBackend testOrderLib testOrder (Finite 2)
     testTxParams) = Inl (MarketFailure InsufficientBalanceForTransfer)"
    by (simp add: Let_def)
  from r(7) 0 A B C D E show ?thesis by simp
qed

section \<open>Standardized contract names: the round trip\<close>

lemma String_split_no_separator: "sep \<notin> set s \<Longrightarrow> String_split sep s = [s]"
  by (induction s) auto

lemma String_split_at_separator:
  "sep \<notin> set s \<Longrightarrow> String_split sep (s @ sep # rest) = s # String_split sep rest"
  by (induction s) auto

text \<open>
  Parsing a created name, whatever the three functions of the runtime and the library
  are, as long as the upper-cased parts and the printed expiration hold no underscore:
  the name splits into exactly the five parts it was made of.
\<close>

lemma parse_create_contract_name:
  assumes "CHR ''_'' \<notin> set (toUpperCase referenceAssetName)"
    "CHR ''_'' \<notin> set (toUpperCase collateralTokenSymbol)"
    "CHR ''_'' \<notin> set (toUpperCase dataProviderName)"
    "CHR ''_'' \<notin> set (toUpperCase userTxt)"
    and "CHR ''_'' \<notin> set (toString expiration)"
  shows "parseStandardizedContractName fromString
           (createStandardizedContractName toUpperCase toString referenceAssetName
              collateralTokenSymbol dataProviderName expiration userTxt) =
         (case fromString (toString expiration) of
            None \<Rightarrow> None
          | Some parsed \<Rightarrow>
              Some \<lparr> referenceAsset = toUpperCase referenceAssetName,
                     collateralToken = toUpperCase collateralTokenSymbol,
                     dataProvider = toUpperCase dataProviderName,
                     expirationTimeStamp = parsed,
                     userText = toUpperCase userTxt \<rparr>)"
proof -
  have "String_split CHR ''_''
          (createStandardizedContractName toUpperCase toString referenceAssetName
             collateralTokenSymbol dataProviderName expiration userTxt) =
        [toUpperCase referenceAssetName, toUpperCase collateralTokenSymbol,
         toUpperCase dataProviderName, toString expiration, toUpperCase userTxt]"
    using assms
    by (simp add: createStandardizedContractName_def String_split_at_separator
        String_split_no_separator)
  then show ?thesis
    by (simp add: parseStandardizedContractName_def Let_def split: option.splits)
qed

text \<open>The decimal digits of a number denote it, and hold no underscore.\<close>

lemma digit_cases:
  "d < 10 \<Longrightarrow> d = 0 \<or> d = 1 \<or> d = 2 \<or> d = 3 \<or> d = 4 \<or> d = 5 \<or> d = 6 \<or> d = 7 \<or> d = 8 \<or>
     d = (9::nat)"
  by arith

lemma digitChar_properties:
  assumes "d < 10"
  shows "isDigit (digitChar d)" "digitValue (digitChar d) = d" "digitChar d \<noteq> CHR ''_''"
    "CHR ''_'' \<noteq> digitChar d"
  using digit_cases [OF assms]
  by (auto simp: digitChar_def isDigit_def digitValue_def)

lemma decimalDigits_properties:
  "decimalDigits n \<noteq> [] \<and> list_all isDigit (decimalDigits n) \<and>
   CHR ''_'' \<notin> set (decimalDigits n) \<and> digitsValue (decimalDigits n) = n"
  unfolding digitsValue_def
proof (induction n rule: decimalDigits.induct)
  case (1 n)
  show ?case
  proof (cases "n < 10")
    case True
    then show ?thesis
      by (subst (1 2 3 4) decimalDigits.simps)
        (simp add: digitChar_properties)
  next
    case False
    with 1 show ?thesis
      by (subst (1 2 3 4) decimalDigits.simps)
        (simp add: digitChar_properties)
  qed
qed

text \<open>
  On the timestamps the library's conversions are inverse to each other, and on plain
  names the runtime's \<^verbatim>\<open>toUpperCase\<close> brings in no underscore.
\<close>

lemma BigNumber_toString_timestamp:
  assumes "n < 10 ^ 21"
  shows "BigNumber_toString (Finite (of_nat n)) = decimalDigits n"
proof -
  have "(of_nat n :: rat) < of_nat (10 ^ 21)"
    using assms by (simp only: of_nat_less_iff)
  then have "(of_nat n :: rat) < 10 ^ 21" by simp
  then show ?thesis
    by (simp add: BigNumber_toString_def)
qed

lemma BigNumber_new_digits:
  "BigNumber_new (decimalDigits n) = Some (Finite (of_nat n))"
  using decimalDigits_properties [of n] by (simp add: BigNumber_new_def)

lemma upperChar_not_underscore: "c \<noteq> CHR ''_'' \<Longrightarrow> upperChar c \<noteq> CHR ''_''"
proof (cases "map_of (zip ''abcdefghijklmnopqrstuvwxyz'' ''ABCDEFGHIJKLMNOPQRSTUVWXYZ'') c")
  case None
  assume "c \<noteq> CHR ''_''"
  with None show ?thesis by (simp add: upperChar_def)
next
  case (Some u)
  then have "u \<in> set ''ABCDEFGHIJKLMNOPQRSTUVWXYZ''"
    by (meson map_of_SomeD set_zip_rightD)
  then have "u \<noteq> CHR ''_''" by auto
  with Some show ?thesis by (simp add: upperChar_def)
qed

lemma String_toUpperCase_no_underscore:
  assumes "list_all isPlainChar s" and "CHR ''_'' \<notin> set s"
  shows "CHR ''_'' \<notin> set (String_toUpperCase s)"
proof
  assume "CHR ''_'' \<in> set (String_toUpperCase s)"
  with assms(1) obtain c where "c \<in> set s" "upperChar c = CHR ''_''"
    by (auto simp: String_toUpperCase_def)
  with assms(2) upperChar_not_underscore [of c] show False by auto
qed

text \<open>
  Claim C9, as stated, at the expiration NaN. The library prints NaN as \<^verbatim>\<open>NaN\<close> and
  reads \<^verbatim>\<open>NaN\<close> as NaN, so the parsed record is not null and its expiration is NaN;
  but NaN is numerically equal to nothing, itself included, so the expiration read back
  is not numerically equal to the one put in. NaN is a value an expiration takes:
  \<^verbatim>\<open>parseStandardizedContractName\<close> itself returns it for a name whose fourth part is
  no number.
\<close>

theorem contract_name_nan_expiration:
  "createStandardizedContractName String_toUpperCase BigNumber_toString ''btc'' ''usdt'' ''bIn''
     NaN ''q1'' = ''BTC_USDT_BIN_NaN_Q1'' \<and>
   parseStandardizedContractName BigNumber_new ''BTC_USDT_BIN_NaN_Q1'' =
     Some \<lparr> referenceAsset = ''BTC'', collateralToken = ''USDT'', dataProvider = ''BIN'',
            expirationTimeStamp = NaN, userText = ''Q1'' \<rparr> \<and>
   \<not> isEqualTo NaN NaN"
  by (simp add: createStandardizedContractName_def parseStandardizedContractName_def Let_def
      String_toUpperCase_def isPlainChar_def upperChar_def BigNumber_toString_def
      BigNumber_new_def isDigit_def)

text \<open>
  Claim C9, amended. For names, symbols and user text without an underscore, parsing the
  created name gives a record of the upper-cased parts and of the expiration read back
  from its printed form, for every expiration that the library reads back from its
  printed form as a numerically equal value. \<^verbatim>\<open>toUpperCase\<close>, \<^verbatim>\<open>toString\<close> and the
  constructor are the runtime's and the library's and are parameters of the theorem; what
  is assumed of them is that upper-casing brings no underscore into the four parts and
  that the printed expiration holds none. The first conjunct is the round trip under the
  assumption that the library round-trips the expiration (it does so for every number;
  not for NaN, which equals nothing). The second derives the round trip of a
  non-negative integer from two plainer facts, that the library prints it in decimal
  digits (it does below \<open>10 ^ 21\<close>) and reads decimal digits as the integer they denote.
  The third says what the parse of a created name is in every case, NaN included:
  null exactly when the constructor throws, else the record of the parts and of the
  value the constructor read. The fourth is the round trip with nothing assumed, on the
  names of plain characters and the timestamps below \<open>10 ^ 21\<close>, where the runtime and
  the library are given.
\<close>

theorem contract_name_round_trip:
  assumes "CHR ''_'' \<notin> set referenceAssetName" "CHR ''_'' \<notin> set collateralTokenSymbol"
    "CHR ''_'' \<notin> set dataProviderName" "CHR ''_'' \<notin> set userTxt"
    and "CHR ''_'' \<notin> set (toUpperCase referenceAssetName)"
    "CHR ''_'' \<notin> set (toUpperCase collateralTokenSymbol)"
    "CHR ''_'' \<notin> set (toUpperCase dataProviderName)"
    "CHR ''_'' \<notin> set (toUpperCase userTxt)"
  shows "(CHR ''_'' \<notin> set (toString expiration) \<and>
          fromString (toString expiration) = Some parsed \<and> isEqualTo parsed expiration \<longrightarrow>
          (\<exists>name. parseStandardizedContractName fromString
              (createStandardizedContractName toUpperCase toString referenceAssetName
                 collateralTokenSymbol dataProviderName expiration userTxt) = Some name \<and>
            referenceAsset name = toUpperCase referenceAssetName \<and>
            collateralToken name = toUpperCase collateralTokenSymbol \<and>
            dataProvider name = toUpperCase dataProviderName \<and>
            isEqualTo (expirationTimeStamp name) expiration \<and>
            userText name = toUpperCase userTxt)) \<and>
         (toString (Finite (of_nat n)) = decimalDigits n \<and>
          fromString (decimalDigits n) = Some (Finite (of_nat n)) \<longrightarrow>
          parseStandardizedContractName fromString
            (createStandardizedContractName toUpperCase toString referenceAssetName
               collateralTokenSymbol dataProviderName (Finite (of_nat n)) userTxt) =
          Some \<lparr> referenceAsset = toUpperCase referenceAssetName,
                 collateralToken = toUpperCase collateralTokenSymbol,
                 dataProvider = toUpperCase dataProviderName,
                 expirationTimeStamp = Finite (of_nat n),
                 userText = toUpperCase userTxt \<rparr>) \<and>
         (CHR ''_'' \<notin> set (toString expiration) \<longrightarrow>
          parseStandardizedContractName fromString
            (createStandardizedContractName toUpperCase toString referenceAssetName
               collateralTokenSymbol dataProviderName expiration userTxt) =
          (case fromString (toString expiration) of
             None \<Rightarrow> None
           | Some read \<Rightarrow>
               Some \<lparr> referenceAsset = toUpperCase referenceAssetName,
                      collateralToken = toUpperCase collateralTokenSymbol,
                      dataProvider = toUpperCase dataProviderName,
                      expirationTimeStamp = read,
                      userText = toUpperCase userTxt \<rparr>)) \<and>
         (list_all isPlainChar referenceAssetName \<and> list_all isPlainChar collateralTokenSymbol \<and>
          list_all isPlainChar dataProviderName \<and> list_all isPlainChar userTxt \<and>
          n < 10 ^ 21 \<longrightarrow>
          parseStandardizedContractName BigNumber_new
            (createStandardizedContractName String_toUpperCase BigNumber_toString
               referenceAssetName collateralTokenSymbol dataProviderName (Finite (of_nat n))
               userTxt) =
          Some \<lparr> referenceAsset = String_toUpperCase referenceAssetName,
                 collateralToken = String_toUpperCase collateralTokenSymbol,
                 dataProvider = String_toUpperCase dataProviderName,
                 expirationTimeStamp = Finite (of_nat n),
                 userText = String_toUpperCase userTxt \<rparr>)"
proof -
  note parse = parse_create_contract_name [where toUpperCase = toUpperCase
      and toString = toString and fromString = fromString, OF assms(5-8)]
  have 1: "\<exists>name. parseStandardizedContractName fromString
              (createStandardizedContractName toUpperCase toString referenceAssetName
                 collateralTokenSymbol dataProviderName expiration userTxt) = Some name \<and>
            referenceAsset name = toUpperCase referenceAssetName \<and>
            collateralToken name = toUpperCase collateralTokenSymbol \<and>
            dataProvider name = toUpperCase dataProviderName \<and>
            isEqualTo (expirationTimeStamp name) expiration \<and>
            userText name = toUpperCase userTxt"
    if "CHR ''_'' \<notin> set (toString expiration)"
      "fromString (toString expiration) = Some parsed" "isEqualTo parsed expiration"
    using parse [OF that(1)] that(2,3) by simp
  have 2: "parseStandardizedContractName fromString
            (createStandardizedContractName toUpperCase toString referenceAssetName
               collateralTokenSymbol dataProviderName (Finite (of_nat n)) userTxt) =
          Some \<lparr> referenceAsset = toUpperCase referenceAssetName,
                 collateralToken = toUpperCase collateralTokenSymbol,
                 dataProvider = toUpperCase dataProviderName,
                 expirationTimeStamp = Finite (of_nat n),
                 userText = toUpperCase userTxt \<rparr>"
    if "toString (Finite (of_nat n)) = decimalDigits n"
      "fromString (decimalDigits n) = Some (Finite (of_nat n))"
  proof -
    have "CHR ''_'' \<notin> set (toString (Finite (of_nat n)))"
      using decimalDigits_properties [of n] that(1) by simp
    from parse [OF this] that show ?thesis by simp
  qed
  have 3: "parseStandardizedContractName BigNumber_new
            (createStandardizedContractName String_toUpperCase BigNumber_toString
               referenceAssetName collateralTokenSymbol dataProviderName (Finite (of_nat n))
               userTxt) =
          Some \<lparr> referenceAsset = String_toUpperCase referenceAssetName,
                 collateralToken = String_toUpperCase collateralTokenSymbol,
                 dataProvider = String_toUpperCase dataProviderName,
                 expirationTimeStamp = Finite (of_nat n),
                 userText = String_toUpperCase userTxt \<rparr>"
    if plain: "list_all isPlainChar referenceAssetName" "list_all isPlainChar collateralTokenSymbol"
      "list_all isPlainChar dataProviderName" "list_all isPlainChar userTxt"
      and below: "n < 10 ^ 21"
  proof -
    note printed = BigNumber_toString_timestamp [OF below]
    have "CHR ''_'' \<notin> set (BigNumber_toString (Finite (of_nat n)))"
      using decimalDigits_properties [of n] by (simp add: printed)
    from parse_create_contract_name [where toUpperCase = String_toUpperCase
        and toString = BigNumber_toString and fromString = BigNumber_new,
        OF String_toUpperCase_no_underscore [OF plain(1) assms(1)]
          String_toUpperCase_no_underscore [OF plain(2) assms(2)]
          String_toUpperCase_no_underscore [OF plain(3) assms(3)]
          String_toUpperCase_no_underscore [OF plain(4) assms(4)] this]
    show ?thesis
      by (simp add: printed BigNumber_new_digits)
  qed
  from 1 2 3 parse show ?thesis by blast
qed

theorem contract_name_round_trip_witness:
  "CHR ''_'' \<notin> set ''btc'' \<and> CHR ''_'' \<notin> set ''usdt'' \<and> CHR ''_'' \<notin> set ''bIn'' \<and>
   CHR ''_'' \<notin> set ''q1'' \<and>
   String_toUpperCase ''btc'' = ''BTC'' \<and> String_toUpperCase ''usdt'' = ''USDT'' \<and>
   String_toUpperCase ''bIn'' = ''BIN'' \<and> String_toUpperCase ''q1'' = ''Q1'' \<and>
   BigNumber_toString (Finite 1546300800) = ''1546300800'' \<and>
   BigNumber_new ''1546300800'' = Some (Finite 1546300800) \<and>
   isEqualTo (Finite 1546300800) (Finite 1546300800) \<and>
   createStandardizedContractName String_toUpperCase BigNumber_toString ''btc'' ''usdt'' ''bIn''
     (Finite 1546300800) ''q1'' = ''BTC_USDT_BIN_1546300800_Q1'' \<and>
   parseStandardizedContractName BigNumber_new ''BTC_USDT_BIN_1546300800_Q1'' =
     Some \<lparr> referenceAsset = ''BTC'', collateralToken = ''USDT'', dataProvider = ''BIN'',
            expirationTimeStamp = Finite 1546300800, userText = ''Q1'' \<rparr>"
proof -
  have e: "Finite 1546300800 = Finite (of_nat 1546300800)" by simp
  have d: "decimalDigits 1546300800 = ''1546300800''"
    by (simp add: decimalDigits.simps digitChar_def)
  have u: "CHR ''_'' \<notin> set ''btc''" "CHR ''_'' \<notin> set ''usdt''" "CHR ''_'' \<notin> set ''bIn''"
    "CHR ''_'' \<notin> set ''q1''"
    by simp_all
  have up: "String_toUpperCase ''btc'' = ''BTC''" "String_toUpperCase ''usdt'' = ''USDT''"
    "String_toUpperCase ''bIn'' = ''BIN''" "String_toUpperCase ''q1'' = ''Q1''"
    by (simp_all add: String_toUpperCase_def isPlainChar_def upperChar_def)
  have v: "CHR ''_'' \<notin> set (String_toUpperCase ''btc'')"
    "CHR ''_'' \<notin> set (String_toUpperCase ''usdt'')"
    "CHR ''_'' \<notin> set (String_toUpperCase ''bIn'')"
    "CHR ''_'' \<notin> set (String_toUpperCase ''q1'')"
    unfolding up by simp_all
  have s: "BigNumber_toString (Finite (of_nat 1546300800)) = decimalDigits 1546300800"
    by (rule BigNumber_toString_timestamp) simp
  have f: "BigNumber_new (decimalDigits 1546300800) = Some (Finite (of_nat 1546300800))"
    by (rule BigNumber_new_digits)
  have t: "CHR ''_'' \<notin> set (BigNumber_toString (Finite (of_nat 1546300800)))"
    unfolding s d by simp
  have q: "isEqualTo (Finite (of_nat 1546300800)) (Finite (of_nat 1546300800))" by simp
  note round_trip = contract_name_round_trip [OF u v, where n = 1546300800
      and toString = BigNumber_toString and fromString = BigNumber_new
      and expiration = "Finite (of_nat 1546300800)" and parsed = "Finite (of_nat 1546300800)"]
  have c: "createStandardizedContractName String_toUpperCase BigNumber_toString ''btc'' ''usdt''
     ''bIn'' (Finite (of_nat 1546300800)) ''q1'' = ''BTC_USDT_BIN_1546300800_Q1''"
    by (simp add: createStandardizedContractName_def s d up del: of_nat_numeral)
  have f': "BigNumber_new (BigNumber_toString (Finite (of_nat 1546300800))) =
      Some (Finite (of_nat 1546300800))"
    by (simp only: s f)
  have "\<exists>name. parseStandardizedContractName BigNumber_new
      (createStandardizedContractName String_toUpperCase BigNumber_toString ''btc'' ''usdt''
        ''bIn'' (Finite (of_nat 1546300800)) ''q1'') = Some name \<and>
      isEqualTo (expirationTimeStamp name) (Finite (of_nat 1546300800))"
    using round_trip t f' q by blast
  moreover have "parseStandardizedContractName BigNumber_new
      (createStandardizedContractName String_toUpperCase BigNumber_toString ''btc'' ''usdt''
        ''bIn'' (Finite (of_nat 1546300800)) ''q1'') =
      Some \<lparr> referenceAsset = String_toUpperCase ''btc'',
             collateralToken = String_toUpperCase ''usdt'',
             dataProvider = String_toUpperCase ''bIn'',
             expirationTimeStamp = Finite (of_nat 1546300800),
             userText = String_toUpperCase ''q1'' \<rparr>"
    using round_trip s f by blast
  moreover have "list_all isPlainChar ''btc''" "list_all isPlainChar ''usdt''"
    "list_all isPlainChar ''bIn''" "list_all isPlainChar ''q1''" "(1546300800::nat) < 10 ^ 21"
    by (simp_all add: isPlainChar_def)
  then have "parseStandardizedContractName BigNumber_new
      (createStandardizedContractName String_toUpperCase BigNumber_toString ''btc'' ''usdt''
        ''bIn'' (Finite (of_nat 1546300800)) ''q1'') =
      Some \<lparr> referenceAsset = String_toUpperCase ''btc'',
             collateralToken = String_toUpperCase ''usdt'',
             dataProvider = String_toUpperCase ''bIn'',
             expirationTimeStamp = Finite (of_nat 1546300800),
             userText = String_toUpperCase ''q1'' \<rparr>"
    using round_trip by blast
  ultimately have "parseStandardizedContractName BigNumber_new ''BTC_USDT_BIN_1546300800_Q1'' =
     Some \<lparr> referenceAsset = ''BTC'', collateralToken = ''USDT'', dataProvider = ''BIN'',
            expirationTimeStamp = Finite (of_nat 1546300800), userText = ''Q1'' \<rparr>"
    unfolding c up by simp
  moreover have "BigNumber_toString (Finite 1546300800) = ''1546300800''"
    using s d by simp
  moreover have "BigNumber_new ''1546300800'' = Some (Finite 1546300800)"
    using f d by simp
  moreover have "createStandardizedContractName String_toUpperCase BigNumber_toString ''btc''
     ''usdt'' ''bIn'' (Finite 1546300800) ''q1'' = ''BTC_USDT_BIN_1546300800_Q1''"
    using c by simp
  ultimately show ?thesis
    using u up by simp
qed


end
